theory Spec2Isabelle
  imports Complex_Main "HOL-Library.Sublist"
begin

section \<open>Values of the rule language and of the agents\<close>

text \<open>
  The rule tree and the agents' attributes are what \<^verbatim>\<open>json.loads\<close> and the fixture
  hand to the compiler: nested dictionaries, lists, strings, numbers, booleans and
  \<^verbatim>\<open>None\<close>. A dictionary is the list of its items (keys distinct, as in a Python dict);
  a float is the rational number the double denotes.
\<close>

datatype json =
    JNull
  | JBool bool
  | JInt int
  | JFloat rat
  | JStr string
  | JArr "json list"
  | JObj "(string \<times> json) list"

text \<open>The messages of the \<^verbatim>\<open>ValueError\<close>s the compiler raises itself, with the values
  the f-string interpolates.\<close>

datatype verr =
    UnknownKind json
  | UnsupportedHardOp json
  | UnsupportedLogicalOp json
  | NoAgentsMatch json json
  | BadFloatLiteral string

text \<open>Exceptions. \<open>Unmodelled\<close> marks the one path whose outcome depends on parsing a
  repeated string as an integer (a string-valued soft weight).\<close>

datatype exc =
    KeyError
  | TypeError
  | AttributeError
  | IndexError
  | OverflowError
  | ReError
  | ValueError verr
  | Unmodelled

text \<open>A Python number: an \<^verbatim>\<open>int\<close> (and \<^verbatim>\<open>bool\<close>, its subclass) or a \<^verbatim>\<open>float\<close>.\<close>

datatype pynum = NInt int | NFloat rat

text \<open>
  What the standard library contributes and the source does not define: the regular
  expression engine (\<open>re_compile p\<close> is \<open>None\<close> when \<^verbatim>\<open>re.compile\<close> raises, and
  otherwise the \<^verbatim>\<open>search\<close> test of the compiled pattern), \<^verbatim>\<open>float\<close> of a string,
  \<^verbatim>\<open>str\<close> of a number, list or dictionary, and the rounding of an exact result to a
  double. Every function below takes it as its first argument, and every theorem holds
  for all of them.
\<close>

record pylib =
  re_compile :: "string \<Rightarrow> (string \<Rightarrow> bool) option"
  str_float :: "string \<Rightarrow> rat option"
  repr :: "json \<Rightarrow> string"
  rnd :: "rat \<Rightarrow> rat"

text \<open>
  The positional arguments \<^verbatim>\<open>agent_data\<close>, \<^verbatim>\<open>num_agents\<close>, \<^verbatim>\<open>num_teams\<close> and
  \<^verbatim>\<open>result\<close> are dynamically typed: the recursive call in the \<^verbatim>\<open>and\<close> branch passes
  them one position to the left of where \<^verbatim>\<open>_parse_constraint\<close> expects them, so a
  parameter can hold any of these values. \<open>AResult\<close> is the reference to the result
  dictionary, whose contents live in the state.
\<close>

datatype arg =
    ANone
  | AInt int
  | AAgents "json list"
  | APrefs "nat list list"
  | AResult

section \<open>The constraint model\<close>

text \<open>The names given to \<^verbatim>\<open>NewBoolVar\<close>, with the numbers the f-string interpolates.\<close>

datatype vname =
    AgentTeam nat nat
  | OrIndicator nat nat
  | NotIndicator nat
  | Both nat nat nat

datatype cmp = GE | LE | EQ

text \<open>
  A constraint of the model: a linear expression (coefficient and variable per term)
  compared with a bound, optionally under \<^verbatim>\<open>OnlyEnforceIf\<close>; \<^verbatim>\<open>AddBoolOr\<close>;
  \<^verbatim>\<open>AddMultiplicationEquality\<close>. A variable is its index in the model.
\<close>

datatype constr =
    Linear "(pynum \<times> nat) list" cmp json "nat option"
  | BoolOr "nat list"
  | MultiplicationEquality nat "nat list"

text \<open>The audit strings appended to \<^verbatim>\<open>result['hard_constraints']\<close>.\<close>

datatype descr =
    DAtLeast nat json json json
  | DAtMost nat json json json
  | DSumIn nat json json json
  | DSumEq nat json json
  | DRegex nat json json
  | DOr nat
  | DNot nat

record soft =
  s_constraint :: json
  s_key :: json
  s_mode :: json
  s_weight :: json

text \<open>The mutable objects: the \<^verbatim>\<open>CpModel\<close> (variables, constraints, objective) and
  the result dictionary (its two lists).\<close>

record state =
  vars :: "vname list"
  constraints :: "constr list"
  objective :: "(pynum \<times> nat) list option"
  hard_constraints :: "descr list"
  soft_constraints :: "soft list"

type_synonym outcome = "exc option \<times> state"

section \<open>Python's operations on these values\<close>

definition bnd :: "exc + 'a \<Rightarrow> ('a \<Rightarrow> exc + 'b) \<Rightarrow> exc + 'b" where
  "bnd r f = (case r of Inl e \<Rightarrow> Inl e | Inr v \<Rightarrow> f v)"

fun collect :: "('a \<Rightarrow> exc + 'b) \<Rightarrow> 'a list \<Rightarrow> exc + 'b list" where
  "collect f [] = Inr []"
| "collect f (a # as) =
     (case f a of Inl e \<Rightarrow> Inl e
      | Inr b \<Rightarrow> (case collect f as of Inl e \<Rightarrow> Inl e | Inr bs \<Rightarrow> Inr (b # bs)))"

fun select :: "('a \<Rightarrow> exc + bool) \<Rightarrow> 'a list \<Rightarrow> exc + 'a list" where
  "select p [] = Inr []"
| "select p (a # as) =
     (case p a of Inl e \<Rightarrow> Inl e
      | Inr b \<Rightarrow> (case select p as of Inl e \<Rightarrow> Inl e
                 | Inr bs \<Rightarrow> Inr (if b then a # bs else bs)))"

text \<open>A \<^verbatim>\<open>for\<close> loop whose body may raise: the exception leaves the loop with the state
  as it is at that moment.\<close>

fun for_each :: "'a list \<Rightarrow> ('a \<Rightarrow> 's \<Rightarrow> exc option \<times> 's) \<Rightarrow> 's \<Rightarrow> exc option \<times> 's" where
  "for_each [] f s = (None, s)"
| "for_each (a # as) f s =
     (case f a s of (Some e, s') \<Rightarrow> (Some e, s') | (None, s') \<Rightarrow> for_each as f s')"

definition and_then :: "exc option \<times> 's \<Rightarrow> ('s \<Rightarrow> exc option \<times> 's) \<Rightarrow> exc option \<times> 's" where
  "and_then r f = (case r of (Some e, s) \<Rightarrow> (Some e, s) | (None, s) \<Rightarrow> f s)"

text \<open>\<^verbatim>\<open>d[k]\<close> for a string \<open>k\<close>.\<close>

definition subscript :: "json \<Rightarrow> string \<Rightarrow> exc + json" where
  "subscript d k =
     (case d of
        JObj kvs \<Rightarrow> (case map_of kvs k of None \<Rightarrow> Inl KeyError | Some v \<Rightarrow> Inr v)
      | _ \<Rightarrow> Inl TypeError)"

text \<open>\<^verbatim>\<open>d.get(key, default)\<close>: lists and dictionaries are unhashable keys, and a key
  that is not a string is in no dictionary here. \<^verbatim>\<open>d.get(key)\<close> is the call with default
  \<open>JNull\<close>.\<close>

definition dict_get_json :: "json \<Rightarrow> json \<Rightarrow> json \<Rightarrow> exc + json" where
  "dict_get_json d key dflt =
     (case d of
        JObj kvs \<Rightarrow>
          (case key of
             JArr _ \<Rightarrow> Inl TypeError
           | JObj _ \<Rightarrow> Inl TypeError
           | JStr k \<Rightarrow> Inr (case map_of kvs k of None \<Rightarrow> dflt | Some v \<Rightarrow> v)
           | _ \<Rightarrow> Inr dflt)
      | _ \<Rightarrow> Inl AttributeError)"

text \<open>The elements a \<^verbatim>\<open>for\<close> loop draws from a value.\<close>

definition py_iter :: "json \<Rightarrow> exc + json list" where
  "py_iter v =
     (case v of
        JArr xs \<Rightarrow> Inr xs
      | JStr s \<Rightarrow> Inr (map (\<lambda>c. JStr [c]) s)
      | JObj kvs \<Rightarrow> Inr (map (\<lambda>kv. JStr (fst kv)) kvs)
      | _ \<Rightarrow> Inl TypeError)"

definition py_range :: "arg \<Rightarrow> exc + nat list" where
  "py_range a = (case a of AInt n \<Rightarrow> Inr [0..<nat n] | _ \<Rightarrow> Inl TypeError)"

text \<open>\<^verbatim>\<open>agent_data[a]\<close>.\<close>

definition agent_at :: "arg \<Rightarrow> nat \<Rightarrow> exc + json" where
  "agent_at ad a =
     (case ad of
        AAgents l \<Rightarrow> (if a < length l then Inr (l ! a) else Inl IndexError)
      | APrefs l \<Rightarrow>
          (if a < length l then Inr (JArr (map (\<lambda>t. JInt (int t)) (l ! a)))
           else Inl IndexError)
      | AResult \<Rightarrow> Inl KeyError
      | _ \<Rightarrow> Inl TypeError)"

text \<open>\<^verbatim>\<open>x[(a, t)]\<close>.\<close>

definition x_at :: "(nat \<times> nat \<Rightarrow> nat option) \<Rightarrow> nat \<Rightarrow> nat \<Rightarrow> exc + nat" where
  "x_at x a t = (case x (a, t) of None \<Rightarrow> Inl KeyError | Some v \<Rightarrow> Inr v)"

definition num_val :: "pynum \<Rightarrow> rat" where
  "num_val n = (case n of NInt i \<Rightarrow> of_int i | NFloat r \<Rightarrow> r)"

text \<open>The number a value denotes, if it is one (\<^verbatim>\<open>True\<close> is 1).\<close>

definition num_of :: "json \<Rightarrow> pynum option" where
  "num_of v =
     (case v of
        JBool b \<Rightarrow> Some (NInt (if b then 1 else 0))
      | JInt i \<Rightarrow> Some (NInt i)
      | JFloat r \<Rightarrow> Some (NFloat r)
      | _ \<Rightarrow> None)"

text \<open>Python's \<^verbatim>\<open>==\<close>: numbers (booleans among them) compare by value, everything else
  by structure, dictionaries as mappings.\<close>

fun py_eq :: "json \<Rightarrow> json \<Rightarrow> bool"
  and py_eq_list :: "json list \<Rightarrow> json list \<Rightarrow> bool"
  and py_eq_items :: "(string \<times> json) list \<Rightarrow> (string \<times> json) list \<Rightarrow> bool" where
  "py_eq JNull w = (w = JNull)"
| "py_eq (JBool b) w =
     (case num_of w of None \<Rightarrow> False | Some n \<Rightarrow> num_val n = (if b then 1 else 0))"
| "py_eq (JInt i) w = (case num_of w of None \<Rightarrow> False | Some n \<Rightarrow> num_val n = of_int i)"
| "py_eq (JFloat r) w = (case num_of w of None \<Rightarrow> False | Some n \<Rightarrow> num_val n = r)"
| "py_eq (JStr s) w = (w = JStr s)"
| "py_eq (JArr xs) w = (case w of JArr ys \<Rightarrow> py_eq_list xs ys | _ \<Rightarrow> False)"
| "py_eq (JObj kvs) w =
     (case w of JObj kws \<Rightarrow> length kvs = length kws \<and> py_eq_items kvs kws | _ \<Rightarrow> False)"
| "py_eq_list [] ys = (ys = [])"
| "py_eq_list (x # xs) ys =
     (case ys of [] \<Rightarrow> False | y # ys' \<Rightarrow> py_eq x y \<and> py_eq_list xs ys')"
| "py_eq_items [] kws = True"
| "py_eq_items (kv # kvs) kws =
     (case map_of kws (fst kv) of None \<Rightarrow> False
      | Some w \<Rightarrow> py_eq (snd kv) w \<and> py_eq_items kvs kws)"


section \<open>Numeric coercion\<close>

text \<open>
  \<^verbatim>\<open>max(0, min(1, f))\<close>: Python's \<^verbatim>\<open>min\<close> and \<^verbatim>\<open>max\<close> keep their first argument unless
  the second is strictly smaller (larger), so the bounds come back as the integers 0 and
  1 and only a value strictly between them stays a float.
\<close>

definition clamp01 :: "rat \<Rightarrow> pynum" where
  "clamp01 f = (if f < 1 then (if 0 < f then NFloat f else NInt 0) else NInt 1)"

text \<open>\<^verbatim>\<open>float\<close> of an integer raises \<^verbatim>\<open>OverflowError\<close> from this magnitude on (the
  integers that round to \<open>2 ^ 1024\<close>).\<close>

definition float_limit :: int where
  "float_limit = 2 ^ 1024 - 2 ^ 970"

text \<open>
  \<^verbatim>\<open>_get_numeric_value\<close>. The conversion of an integer to a double is monotone and exact
  at 0 and 1, so clamping the converted integer is clamping the integer.
\<close>

definition get_numeric_value :: "'a pylib_scheme \<Rightarrow> json \<Rightarrow> exc + pynum" where
  "get_numeric_value L v =
     (case v of
        JNull \<Rightarrow> Inr (NInt 0)
      | JBool b \<Rightarrow> Inr (NInt (if b then 1 else 0))
      | JInt i \<Rightarrow> (if float_limit \<le> \<bar>i\<bar> then Inl OverflowError else Inr (clamp01 (of_int i)))
      | JFloat r \<Rightarrow> Inr (clamp01 r)
      | JStr s \<Rightarrow>
          (case str_float L s of
             None \<Rightarrow> Inl (ValueError (BadFloatLiteral s))
           | Some r \<Rightarrow> Inr (clamp01 r))
      | _ \<Rightarrow> Inl TypeError)"

text \<open>\<^verbatim>\<open>str(v)\<close>.\<close>

definition py_str :: "'a pylib_scheme \<Rightarrow> json \<Rightarrow> string" where
  "py_str L v =
     (case v of
        JStr s \<Rightarrow> s
      | JNull \<Rightarrow> ''None''
      | JBool b \<Rightarrow> (if b then ''True'' else ''False'')
      | _ \<Rightarrow> repr L v)"

section \<open>The model's and the result's mutators\<close>

definition NewBoolVar :: "vname \<Rightarrow> state \<Rightarrow> nat \<times> state" where
  "NewBoolVar name st = (length (vars st), st\<lparr>vars := vars st @ [name]\<rparr>)"

definition append_constraint :: "constr \<Rightarrow> state \<Rightarrow> state" where
  "append_constraint c st = st\<lparr>constraints := constraints st @ [c]\<rparr>"

text \<open>
  \<^verbatim>\<open>model.Add(expr >= bound)\<close> and its siblings. The library takes integer linear
  constraints only: a coefficient or a bound that is a float, a bound that is no number,
  and an integer outside 64 bits make a \<^verbatim>\<open>TypeError\<close>, raised before the model is
  touched. A sum over no terms is the Python integer 0, so the comparison is Python's
  own: it yields a Boolean, which \<^verbatim>\<open>Add\<close> accepts as a constant constraint, and it
  raises only when an ordering is asked against a value that is no number.
\<close>

definition int64 :: "int \<Rightarrow> bool" where
  "int64 i \<longleftrightarrow> - (2 ^ 63) \<le> i \<and> i < 2 ^ 63"

definition int_bound :: "json \<Rightarrow> bool" where
  "int_bound b = (case b of JInt i \<Rightarrow> int64 i | JBool v \<Rightarrow> True | _ \<Rightarrow> False)"

definition int_coeffs :: "(pynum \<times> nat) list \<Rightarrow> bool" where
  "int_coeffs e = list_all (\<lambda>(c, v). case c of NInt i \<Rightarrow> int64 i | NFloat r \<Rightarrow> False) e"

definition comparison_ok :: "(pynum \<times> nat) list \<Rightarrow> cmp \<Rightarrow> json \<Rightarrow> bool" where
  "comparison_ok e c b =
     (if e = [] then c = EQ \<or> num_of b \<noteq> None else int_coeffs e \<and> int_bound b)"

definition model_Add ::
  "(pynum \<times> nat) list \<Rightarrow> cmp \<Rightarrow> json \<Rightarrow> nat option \<Rightarrow> state \<Rightarrow> outcome" where
  "model_Add e c b enforce st =
     (if comparison_ok e c b then (None, append_constraint (Linear e c b enforce) st)
      else (Some TypeError, st))"

definition model_AddBoolOr :: "nat list \<Rightarrow> state \<Rightarrow> state" where
  "model_AddBoolOr literals st = append_constraint (BoolOr literals) st"


text \<open>\<^verbatim>\<open>result['hard_constraints'].append(d)\<close>: only a dictionary can be subscripted by a
  string.\<close>

definition append_hard :: "arg \<Rightarrow> descr \<Rightarrow> state \<Rightarrow> outcome" where
  "append_hard result d st =
     (if result = AResult then (None, st\<lparr>hard_constraints := hard_constraints st @ [d]\<rparr>)
      else (Some TypeError, st))"

text \<open>The \<^verbatim>\<open>soft\<close> branch of \<^verbatim>\<open>_parse_constraint\<close>: the list is looked up before the
  entry is built.\<close>

definition append_soft :: "arg \<Rightarrow> json \<Rightarrow> state \<Rightarrow> outcome" where
  "append_soft result constraint st =
     (if result \<noteq> AResult then (Some TypeError, st)
      else
        (case bnd (subscript constraint ''key'') (\<lambda>key.
              bnd (subscript constraint ''mode'') (\<lambda>mode.
              bnd (dict_get_json constraint (JStr ''weight'') (JFloat 1)) (\<lambda>weight.
                Inr \<lparr>s_constraint = constraint, s_key = key, s_mode = mode,
                     s_weight = weight\<rparr>))) of
           Inl e \<Rightarrow> (Some e, st)
         | Inr entry \<Rightarrow> (None, st\<lparr>soft_constraints := soft_constraints st @ [entry]\<rparr>)))"

section \<open>The hard operators\<close>

text \<open>The value \<^verbatim>\<open>rule.get("max", num_agents)\<close> falls back to; it is read only after
  \<^verbatim>\<open>range(num_agents)\<close> has accepted the argument as an integer.\<close>

definition arg_json :: "arg \<Rightarrow> json" where
  "arg_json a = (case a of AInt n \<Rightarrow> JInt n | _ \<Rightarrow> JNull)"

text \<open>\<^verbatim>\<open>[a for a in range(num_agents) if agent_data[a].get(key) == value]\<close>.\<close>

definition includes_matching :: "json \<Rightarrow> json \<Rightarrow> arg \<Rightarrow> arg \<Rightarrow> exc + nat list" where
  "includes_matching key val agent_data num_agents =
     bnd (py_range num_agents)
       (select (\<lambda>a. bnd (agent_at agent_data a) (\<lambda>ag.
                    bnd (dict_get_json ag key JNull) (\<lambda>v. Inr (py_eq v val)))))"

text \<open>The lines the two \<^verbatim>\<open>includes\<close> functions share: key, value, the two bounds and
  the count expression \<^verbatim>\<open>sum(x[(a, team_idx)] for a in matching_agents)\<close>.\<close>

definition includes_expr ::
  "json \<Rightarrow> (nat \<times> nat \<Rightarrow> nat option) \<Rightarrow> arg \<Rightarrow> arg \<Rightarrow> nat
    \<Rightarrow> exc + (json \<times> json \<times> json \<times> json \<times> (pynum \<times> nat) list)" where
  "includes_expr rule x agent_data num_agents team_idx =
     bnd (subscript rule ''key'') (\<lambda>key.
     bnd (subscript rule ''value'') (\<lambda>val.
     bnd (dict_get_json rule (JStr ''min'') (JInt 0)) (\<lambda>min_count.
     bnd (dict_get_json rule (JStr ''max'') (arg_json num_agents)) (\<lambda>max_count.
     bnd (includes_matching key val agent_data num_agents) (\<lambda>matching_agents.
     bnd (collect (\<lambda>a. bnd (x_at x a team_idx) (\<lambda>v. Inr (NInt 1, v))) matching_agents)
       (\<lambda>count_expr. Inr (key, val, min_count, max_count, count_expr)))))))"

definition add_includes_constraint ::
  "json \<Rightarrow> (nat \<times> nat \<Rightarrow> nat option) \<Rightarrow> arg \<Rightarrow> arg \<Rightarrow> nat \<Rightarrow> arg \<Rightarrow> state \<Rightarrow> outcome" where
  "add_includes_constraint rule x agent_data num_agents team_idx result st =
     (case includes_expr rule x agent_data num_agents team_idx of
        Inl e \<Rightarrow> (Some e, st)
      | Inr (key, val, min_count, max_count, count_expr) \<Rightarrow>
          and_then
            (if min_count \<noteq> JNull
             then and_then (model_Add count_expr GE min_count None st)
                    (append_hard result (DAtLeast team_idx min_count key val))
             else (None, st))
            (\<lambda>st. if max_count \<noteq> JNull
                  then and_then (model_Add count_expr LE max_count None st)
                         (append_hard result (DAtMost team_idx max_count key val))
                  else (None, st)))"

text \<open>\<^verbatim>\<open>sum(x[(a, team_idx)] * _get_numeric_value(agent_data[a].get(key, 0))
  for a in range(num_agents))\<close>.\<close>

definition sum_expr ::
  "'a pylib_scheme \<Rightarrow> json \<Rightarrow> (nat \<times> nat \<Rightarrow> nat option) \<Rightarrow> arg \<Rightarrow> arg \<Rightarrow> nat
    \<Rightarrow> exc + (pynum \<times> nat) list" where
  "sum_expr L key x agent_data num_agents team_idx =
     bnd (py_range num_agents)
       (collect (\<lambda>a. bnd (x_at x a team_idx) (\<lambda>v.
                     bnd (agent_at agent_data a) (\<lambda>ag.
                     bnd (dict_get_json ag key (JInt 0)) (\<lambda>w.
                     bnd (get_numeric_value L w) (\<lambda>c. Inr (c, v)))))))"

definition range_expr ::
  "'a pylib_scheme \<Rightarrow> json \<Rightarrow> (nat \<times> nat \<Rightarrow> nat option) \<Rightarrow> arg \<Rightarrow> arg \<Rightarrow> nat
    \<Rightarrow> exc + (json \<times> json \<times> json \<times> (pynum \<times> nat) list)" where
  "range_expr L rule x agent_data num_agents team_idx =
     bnd (subscript rule ''key'') (\<lambda>key.
     bnd (subscript rule ''min'') (\<lambda>min_val.
     bnd (subscript rule ''max'') (\<lambda>max_val.
     bnd (sum_expr L key x agent_data num_agents team_idx) (\<lambda>e.
       Inr (key, min_val, max_val, e)))))"

definition add_range_constraint ::
  "'a pylib_scheme \<Rightarrow> json \<Rightarrow> (nat \<times> nat \<Rightarrow> nat option) \<Rightarrow> arg \<Rightarrow> arg \<Rightarrow> nat \<Rightarrow> arg
    \<Rightarrow> state \<Rightarrow> outcome" where
  "add_range_constraint L rule x agent_data num_agents team_idx result st =
     (case range_expr L rule x agent_data num_agents team_idx of
        Inl e \<Rightarrow> (Some e, st)
      | Inr (key, min_val, max_val, e) \<Rightarrow>
          and_then (model_Add e GE min_val None st) (\<lambda>st.
          and_then (model_Add e LE max_val None st)
            (append_hard result (DSumIn team_idx key min_val max_val))))"

definition equals_expr ::
  "'a pylib_scheme \<Rightarrow> json \<Rightarrow> (nat \<times> nat \<Rightarrow> nat option) \<Rightarrow> arg \<Rightarrow> arg \<Rightarrow> nat
    \<Rightarrow> exc + (json \<times> json \<times> (pynum \<times> nat) list)" where
  "equals_expr L rule x agent_data num_agents team_idx =
     bnd (subscript rule ''key'') (\<lambda>key.
     bnd (subscript rule ''value'') (\<lambda>val.
     bnd (sum_expr L key x agent_data num_agents team_idx) (\<lambda>e. Inr (key, val, e))))"

definition add_equals_constraint ::
  "'a pylib_scheme \<Rightarrow> json \<Rightarrow> (nat \<times> nat \<Rightarrow> nat option) \<Rightarrow> arg \<Rightarrow> arg \<Rightarrow> nat \<Rightarrow> arg
    \<Rightarrow> state \<Rightarrow> outcome" where
  "add_equals_constraint L rule x agent_data num_agents team_idx result st =
     (case equals_expr L rule x agent_data num_agents team_idx of
        Inl e \<Rightarrow> (Some e, st)
      | Inr (key, val, e) \<Rightarrow>
          and_then (model_Add e EQ val None st) (append_hard result (DSumEq team_idx key val)))"

text \<open>\<^verbatim>\<open>re.compile(pattern)\<close>: a pattern that is not a string is a \<^verbatim>\<open>TypeError\<close>.\<close>

definition compile_pattern :: "'a pylib_scheme \<Rightarrow> json \<Rightarrow> exc + (string \<Rightarrow> bool)" where
  "compile_pattern L pattern =
     (case pattern of
        JStr p \<Rightarrow> (case re_compile L p of None \<Rightarrow> Inl ReError | Some search \<Rightarrow> Inr search)
      | _ \<Rightarrow> Inl TypeError)"

text \<open>\<^verbatim>\<open>[a for a in range(num_agents)
  if regex.search(str(agent_data[a].get(key, "")))]\<close>.\<close>

definition regex_matching ::
  "'a pylib_scheme \<Rightarrow> (string \<Rightarrow> bool) \<Rightarrow> json \<Rightarrow> arg \<Rightarrow> arg \<Rightarrow> exc + nat list" where
  "regex_matching L search key agent_data num_agents =
     bnd (py_range num_agents)
       (select (\<lambda>a. bnd (agent_at agent_data a) (\<lambda>ag.
                    bnd (dict_get_json ag key (JStr [])) (\<lambda>v. Inr (search (py_str L v))))))"

definition add_regex_constraint ::
  "'a pylib_scheme \<Rightarrow> json \<Rightarrow> (nat \<times> nat \<Rightarrow> nat option) \<Rightarrow> arg \<Rightarrow> arg \<Rightarrow> nat \<Rightarrow> arg
    \<Rightarrow> state \<Rightarrow> outcome" where
  "add_regex_constraint L rule x agent_data num_agents team_idx result st =
     (case bnd (subscript rule ''key'') (\<lambda>key.
           bnd (subscript rule ''pattern'') (\<lambda>pattern.
           bnd (compile_pattern L pattern) (\<lambda>search.
           bnd (regex_matching L search key agent_data num_agents) (\<lambda>matching_agents.
             Inr (key, pattern, matching_agents))))) of
        Inl e \<Rightarrow> (Some e, st)
      | Inr (key, pattern, matching_agents) \<Rightarrow>
          if matching_agents = [] then (Some (ValueError (NoAgentsMatch pattern key)), st)
          else
            (case collect (\<lambda>a. x_at x a team_idx) matching_agents of
               Inl e \<Rightarrow> (Some e, st)
             | Inr lits \<Rightarrow>
                 append_hard result (DRegex team_idx pattern key) (model_AddBoolOr lits st)))"

section \<open>Conditional compilation\<close>

definition add_includes_constraint_with_indicator ::
  "json \<Rightarrow> (nat \<times> nat \<Rightarrow> nat option) \<Rightarrow> arg \<Rightarrow> arg \<Rightarrow> nat \<Rightarrow> nat \<Rightarrow> state \<Rightarrow> outcome" where
  "add_includes_constraint_with_indicator rule x agent_data num_agents team_idx indicator st =
     (case includes_expr rule x agent_data num_agents team_idx of
        Inl e \<Rightarrow> (Some e, st)
      | Inr (key, val, min_count, max_count, count_expr) \<Rightarrow>
          and_then
            (if min_count \<noteq> JNull
             then model_Add count_expr GE min_count (Some indicator) st
             else (None, st))
            (\<lambda>st. if max_count \<noteq> JNull
                  then model_Add count_expr LE max_count (Some indicator) st
                  else (None, st)))"

definition add_range_constraint_with_indicator ::
  "'a pylib_scheme \<Rightarrow> json \<Rightarrow> (nat \<times> nat \<Rightarrow> nat option) \<Rightarrow> arg \<Rightarrow> arg \<Rightarrow> nat \<Rightarrow> nat
    \<Rightarrow> state \<Rightarrow> outcome" where
  "add_range_constraint_with_indicator L rule x agent_data num_agents team_idx indicator st =
     (case range_expr L rule x agent_data num_agents team_idx of
        Inl e \<Rightarrow> (Some e, st)
      | Inr (key, min_val, max_val, e) \<Rightarrow>
          and_then (model_Add e GE min_val (Some indicator) st)
            (model_Add e LE max_val (Some indicator)))"

definition add_equals_constraint_with_indicator ::
  "'a pylib_scheme \<Rightarrow> json \<Rightarrow> (nat \<times> nat \<Rightarrow> nat option) \<Rightarrow> arg \<Rightarrow> arg \<Rightarrow> nat \<Rightarrow> nat
    \<Rightarrow> state \<Rightarrow> outcome" where
  "add_equals_constraint_with_indicator L rule x agent_data num_agents team_idx indicator st =
     (case equals_expr L rule x agent_data num_agents team_idx of
        Inl e \<Rightarrow> (Some e, st)
      | Inr (key, val, e) \<Rightarrow> model_Add e EQ val (Some indicator) st)"

text \<open>\<^verbatim>\<open>_parse_constraint_with_indicator\<close>: three operators of a hard child are compiled;
  every other child falls through the chain of tests and nothing is done.\<close>

definition parse_constraint_with_indicator ::
  "'a pylib_scheme \<Rightarrow> json \<Rightarrow> (nat \<times> nat \<Rightarrow> nat option) \<Rightarrow> arg \<Rightarrow> arg \<Rightarrow> arg \<Rightarrow> arg
    \<Rightarrow> nat \<Rightarrow> nat \<Rightarrow> state \<Rightarrow> outcome" where
  "parse_constraint_with_indicator L constraint x agent_data num_agents num_teams result
       team_idx indicator st =
     (case dict_get_json constraint (JStr ''kind'') JNull of
        Inl e \<Rightarrow> (Some e, st)
      | Inr kind \<Rightarrow>
          if kind = JStr ''hard'' then
            (case bnd (subscript constraint ''rule'') (\<lambda>rule.
                  bnd (subscript rule ''op'') (\<lambda>op. Inr (rule, op))) of
               Inl e \<Rightarrow> (Some e, st)
             | Inr (rule, op) \<Rightarrow>
                 if op = JStr ''includes'' then
                   add_includes_constraint_with_indicator rule x agent_data num_agents
                     team_idx indicator st
                 else if op = JStr ''range'' then
                   add_range_constraint_with_indicator L rule x agent_data num_agents
                     team_idx indicator st
                 else if op = JStr ''equals'' then
                   add_equals_constraint_with_indicator L rule x agent_data num_agents
                     team_idx indicator st
                 else (None, st))
          else if kind = JStr ''soft'' then (None, st)
          else (None, st))"

section \<open>The rule tree\<close>

text \<open>\<^verbatim>\<open>[team_idx] if team_idx is not None else range(num_teams)\<close>.\<close>

definition teams_of :: "nat option \<Rightarrow> arg \<Rightarrow> exc + nat list" where
  "teams_of team_idx num_teams =
     (case team_idx of Some t \<Rightarrow> Inr [t] | None \<Rightarrow> py_range num_teams)"

text \<open>The body of the \<^verbatim>\<open>or\<close> loop for one team. The inner loop carries the list
  \<^verbatim>\<open>indicators\<close> beside the state.\<close>

definition or_child ::
  "'a pylib_scheme \<Rightarrow> (nat \<times> nat \<Rightarrow> nat option) \<Rightarrow> arg \<Rightarrow> arg \<Rightarrow> arg \<Rightarrow> arg \<Rightarrow> nat
    \<Rightarrow> json \<Rightarrow> nat list \<times> state \<Rightarrow> exc option \<times> nat list \<times> state" where
  "or_child L x agent_data num_agents num_teams result t sub_rule is =
     (case is of
        (indicators, s) \<Rightarrow>
          (case NewBoolVar (OrIndicator t (length indicators)) s of
             (indicator, s1) \<Rightarrow>
               (case parse_constraint_with_indicator L sub_rule x agent_data num_agents
                       num_teams result t indicator s1 of
                  (e, s2) \<Rightarrow> (e, (indicators @ [indicator], s2)))))"

definition or_team ::
  "'a pylib_scheme \<Rightarrow> json \<Rightarrow> (nat \<times> nat \<Rightarrow> nat option) \<Rightarrow> arg \<Rightarrow> arg \<Rightarrow> arg \<Rightarrow> arg
    \<Rightarrow> nat \<Rightarrow> state \<Rightarrow> outcome" where
  "or_team L rule x agent_data num_agents num_teams result t st =
     (case bnd (subscript rule ''rules'') py_iter of
        Inl e \<Rightarrow> (Some e, st)
      | Inr sub_rules \<Rightarrow>
          (case for_each sub_rules (or_child L x agent_data num_agents num_teams result t)
                  ([], st) of
             (Some e, (indicators, s)) \<Rightarrow> (Some e, s)
           | (None, (indicators, s)) \<Rightarrow>
               append_hard result (DOr t) (model_AddBoolOr indicators s)))"

text \<open>The body of the \<^verbatim>\<open>not\<close> loop for one team: the variable is created before
  \<^verbatim>\<open>rule["rule"]\<close> is read.\<close>

definition not_team ::
  "'a pylib_scheme \<Rightarrow> json \<Rightarrow> (nat \<times> nat \<Rightarrow> nat option) \<Rightarrow> arg \<Rightarrow> arg \<Rightarrow> arg \<Rightarrow> arg
    \<Rightarrow> nat \<Rightarrow> state \<Rightarrow> outcome" where
  "not_team L rule x agent_data num_agents num_teams result t st =
     (case NewBoolVar (NotIndicator t) st of
        (indicator, s1) \<Rightarrow>
          (case subscript rule ''rule'' of
             Inl e \<Rightarrow> (Some e, s1)
           | Inr inner \<Rightarrow>
               and_then
                 (parse_constraint_with_indicator L inner x agent_data num_agents num_teams
                    result t indicator s1)
                 (\<lambda>s2. and_then (model_Add [(NInt 1, indicator)] EQ (JInt 0) None s2)
                         (append_hard result (DNot t)))))"

text \<open>The operator dispatch inside the team loop of \<^verbatim>\<open>_parse_hard_constraint\<close>.\<close>

definition hard_team ::
  "'a pylib_scheme \<Rightarrow> json \<Rightarrow> json \<Rightarrow> (nat \<times> nat \<Rightarrow> nat option) \<Rightarrow> arg \<Rightarrow> arg \<Rightarrow> arg
    \<Rightarrow> nat \<Rightarrow> state \<Rightarrow> outcome" where
  "hard_team L op rule x agent_data num_agents result t st =
     (if op = JStr ''includes'' then
        add_includes_constraint rule x agent_data num_agents t result st
      else if op = JStr ''range'' then
        add_range_constraint L rule x agent_data num_agents t result st
      else if op = JStr ''equals'' then
        add_equals_constraint L rule x agent_data num_agents t result st
      else if op = JStr ''regex'' then
        add_regex_constraint L rule x agent_data num_agents t result st
      else (Some (ValueError (UnsupportedHardOp op)), st))"

text \<open>The value a team index has when it lands in another parameter.\<close>

definition team_arg :: "nat option \<Rightarrow> arg" where
  "team_arg team_idx = (case team_idx of None \<Rightarrow> ANone | Some t \<Rightarrow> AInt (int t))"

lemma for_each_cong [fundef_cong]:
  "xs = ys \<Longrightarrow> (\<And>a s. a \<in> set ys \<Longrightarrow> f a s = g a s) \<Longrightarrow> s = s'
    \<Longrightarrow> for_each xs f s = for_each ys g s'"
proof (induction ys arbitrary: xs s s')
  case Nil
  then show ?case by simp
next
  case (Cons a ys)
  then show ?case by (auto split: prod.splits option.splits)
qed

lemma map_of_size: "map_of kvs k = Some v \<Longrightarrow> size v < size (JObj kvs)"
  by (induction kvs) (auto split: if_splits)

lemma subscript_size: "subscript d k = Inr v \<Longrightarrow> size v < size d"
  by (auto simp: subscript_def dest: map_of_size split: json.splits option.splits)

lemma py_iter_size: "py_iter v = Inr xs \<Longrightarrow> a \<in> set xs \<Longrightarrow> size a \<le> size v"
proof (cases v)
  case (JArr ys)
  assume "py_iter v = Inr xs" and "a \<in> set xs"
  with JArr have "a \<in> set ys" by (simp add: py_iter_def)
  then have "size a < size (JArr ys)" by (induction ys) auto
  with JArr show ?thesis by simp
qed (auto simp: py_iter_def)

lemma sub_rules_size:
  "bnd (subscript rule k) py_iter = Inr xs \<Longrightarrow> a \<in> set xs \<Longrightarrow> size a < size rule"
  by (auto simp: bnd_def split: sum.splits dest!: subscript_size py_iter_size)

text \<open>
  \<^verbatim>\<open>_parse_constraint\<close>, \<^verbatim>\<open>_parse_hard_constraint\<close> and \<^verbatim>\<open>_parse_logical_constraint\<close>.
  The call in the \<^verbatim>\<open>and\<close> branch passes eight positional arguments, without
  \<^verbatim>\<open>preferences\<close>: the callee receives \<^verbatim>\<open>agent_data\<close> as \<^verbatim>\<open>preferences\<close>,
  \<^verbatim>\<open>num_agents\<close> as \<^verbatim>\<open>agent_data\<close>, \<^verbatim>\<open>num_teams\<close> as \<^verbatim>\<open>num_agents\<close>, \<^verbatim>\<open>result\<close> as
  \<^verbatim>\<open>num_teams\<close>, \<^verbatim>\<open>team_idx\<close> as \<^verbatim>\<open>result\<close>, and \<^verbatim>\<open>team_idx\<close> takes its default.
\<close>

function
  parse_constraint ::
    "'a pylib_scheme \<Rightarrow> json \<Rightarrow> (nat \<times> nat \<Rightarrow> nat option) \<Rightarrow> arg \<Rightarrow> arg \<Rightarrow> arg \<Rightarrow> arg \<Rightarrow> arg
      \<Rightarrow> nat option \<Rightarrow> state \<Rightarrow> outcome"
  and parse_hard_constraint ::
    "'a pylib_scheme \<Rightarrow> json \<Rightarrow> (nat \<times> nat \<Rightarrow> nat option) \<Rightarrow> arg \<Rightarrow> arg \<Rightarrow> arg \<Rightarrow> arg
      \<Rightarrow> nat option \<Rightarrow> state \<Rightarrow> outcome"
  and parse_logical_constraint ::
    "'a pylib_scheme \<Rightarrow> json \<Rightarrow> (nat \<times> nat \<Rightarrow> nat option) \<Rightarrow> arg \<Rightarrow> arg \<Rightarrow> arg \<Rightarrow> arg
      \<Rightarrow> nat option \<Rightarrow> state \<Rightarrow> outcome"
where
  "parse_constraint L constraint x preferences agent_data num_agents num_teams result
       team_idx st =
     (case dict_get_json constraint (JStr ''kind'') JNull of
        Inl e \<Rightarrow> (Some e, st)
      | Inr kind \<Rightarrow>
          if kind = JStr ''hard'' then
            (case subscript constraint ''rule'' of
               Inl e \<Rightarrow> (Some e, st)
             | Inr rule \<Rightarrow>
                 parse_hard_constraint L rule x agent_data num_agents num_teams result
                   team_idx st)
          else if kind = JStr ''soft'' then append_soft result constraint st
          else if kind = JStr ''logical'' then
            (case subscript constraint ''rule'' of
               Inl e \<Rightarrow> (Some e, st)
             | Inr rule \<Rightarrow>
                 parse_logical_constraint L rule x agent_data num_agents num_teams result
                   team_idx st)
          else (Some (ValueError (UnknownKind kind)), st))"
| "parse_hard_constraint L rule x agent_data num_agents num_teams result team_idx st =
     (case subscript rule ''op'' of
        Inl e \<Rightarrow> (Some e, st)
      | Inr op \<Rightarrow>
          if op \<in> set [JStr ''and'', JStr ''or'', JStr ''not''] then
            parse_logical_constraint L rule x agent_data num_agents num_teams result
              team_idx st
          else
            (case teams_of team_idx num_teams of
               Inl e \<Rightarrow> (Some e, st)
             | Inr teams \<Rightarrow>
                 for_each teams (hard_team L op rule x agent_data num_agents result) st))"
| "parse_logical_constraint L rule x agent_data num_agents num_teams result team_idx st =
     (case subscript rule ''op'' of
        Inl e \<Rightarrow> (Some e, st)
      | Inr op \<Rightarrow>
          if op = JStr ''and'' then
            (case bnd (subscript rule ''rules'') py_iter of
               Inl e \<Rightarrow> (Some e, st)
             | Inr sub_rules \<Rightarrow>
                 for_each sub_rules
                   (\<lambda>sub_rule. parse_constraint L sub_rule x agent_data num_agents num_teams
                                 result (team_arg team_idx) None)
                   st)
          else if op = JStr ''or'' then
            (case teams_of team_idx num_teams of
               Inl e \<Rightarrow> (Some e, st)
             | Inr teams \<Rightarrow>
                 for_each teams (or_team L rule x agent_data num_agents num_teams result) st)
          else if op = JStr ''not'' then
            (case teams_of team_idx num_teams of
               Inl e \<Rightarrow> (Some e, st)
             | Inr teams \<Rightarrow>
                 for_each teams (not_team L rule x agent_data num_agents num_teams result) st)
          else (Some (ValueError (UnsupportedLogicalOp op)), st))"
  by pat_completeness auto
termination
  by (relation "measure (\<lambda>v. case v of
          Inl (L, c, r) \<Rightarrow> 3 * size c + 2
        | Inr (Inl (L, c, r)) \<Rightarrow> 3 * size c + 1
        | Inr (Inr (L, c, r)) \<Rightarrow> 3 * size c)")
     (auto dest: subscript_size sub_rules_size)

text \<open>\<^verbatim>\<open>parse_constraints\<close>, from the parsed payload on: a fresh result dictionary, and the
  root compiled with no team in scope.\<close>

definition parse_constraints ::
  "'a pylib_scheme \<Rightarrow> json \<Rightarrow> state \<Rightarrow> (nat \<times> nat \<Rightarrow> nat option) \<Rightarrow> nat list list \<Rightarrow> json list
    \<Rightarrow> int \<Rightarrow> int \<Rightarrow> outcome" where
  "parse_constraints L data model x preferences agent_data num_agents num_teams =
     parse_constraint L data x (APrefs preferences) (AAgents agent_data) (AInt num_agents)
       (AInt num_teams) AResult None
       (model\<lparr>hard_constraints := [], soft_constraints := []\<rparr>)"

section \<open>The objective\<close>















section \<open>The solver script\<close>







section \<open>What a solution is\<close>

text \<open>
  The engine, which is not part of the sources, returns an assignment of the Boolean
  variables under which every constraint of the model holds. A bound that is no number
  is satisfied by nothing.
\<close>

definition lin_val :: "(nat \<Rightarrow> bool) \<Rightarrow> (pynum \<times> nat) list \<Rightarrow> rat" where
  "lin_val \<sigma> e = (\<Sum>(c, v)\<leftarrow>e. if \<sigma> v then num_val c else 0)"

definition cmp_holds :: "cmp \<Rightarrow> rat \<Rightarrow> rat \<Rightarrow> bool" where
  "cmp_holds c l r = (case c of GE \<Rightarrow> r \<le> l | LE \<Rightarrow> l \<le> r | EQ \<Rightarrow> l = r)"

definition bound_holds :: "(nat \<Rightarrow> bool) \<Rightarrow> (pynum \<times> nat) list \<Rightarrow> cmp \<Rightarrow> json \<Rightarrow> bool" where
  "bound_holds \<sigma> e c b =
     (case num_of b of None \<Rightarrow> False | Some r \<Rightarrow> cmp_holds c (lin_val \<sigma> e) (num_val r))"

fun holds :: "(nat \<Rightarrow> bool) \<Rightarrow> constr \<Rightarrow> bool" where
  "holds \<sigma> (Linear e c b None) = bound_holds \<sigma> e c b"
| "holds \<sigma> (Linear e c b (Some i)) = (\<sigma> i \<longrightarrow> bound_holds \<sigma> e c b)"
| "holds \<sigma> (BoolOr ls) = (\<exists>v\<in>set ls. \<sigma> v)"
| "holds \<sigma> (MultiplicationEquality v vs) = (\<sigma> v = (\<forall>u\<in>set vs. \<sigma> u))"

definition accepted :: "(nat \<Rightarrow> bool) \<Rightarrow> state \<Rightarrow> bool" where
  "accepted \<sigma> st = (\<forall>c\<in>set (constraints st). holds \<sigma> c)"

section \<open>The fixture\<close>

text \<open>The constants of the mock API, the rule payload \<^verbatim>\<open>json_str2\<close> as parsed, and
  \<^verbatim>\<open>set_agent_data\<close>, which builds one dictionary per preference list.\<close>

definition NUM_TEAMS :: nat where "NUM_TEAMS = 3"
definition NUM_AGENTS :: nat where "NUM_AGENTS = 15"
definition AGENTS_PER_TEAM :: int where "AGENTS_PER_TEAM = 5"

definition PREFERENCES :: "nat list list" where
  "PREFERENCES = [[1, 0, 2], [1, 0, 2], [2, 1, 0], [0, 2, 1], [1, 2, 0], [2, 0, 1], [1, 0, 2],
     [1, 0, 2], [2, 1, 0], [1, 2, 0], [1, 2, 0], [2, 0, 1], [0, 1, 2], [1, 0, 2], [2, 1, 0]]"

definition AGENT_ATTRIBUTES :: "json list" where
  "AGENT_ATTRIBUTES = map JInt [0, 1, 1, 1, 0, 0, 0, 0, 0, 0, 0, 0, 0, 0, 0]"

definition json_str2 :: json where
  "json_str2 = JObj [(''kind'', JStr ''hard''), (''rule'', JObj [(''op'', JStr ''includes''),
     (''key'', JStr ''attributes''), (''value'', JBool True), (''min'', JInt 1),
     (''max'', JInt 5)])]"

definition set_agent_data :: "nat list list \<Rightarrow> json list \<Rightarrow> exc + json list" where
  "set_agent_data preferences attributes =
     collect (\<lambda>(i, pref_list).
                if i < length attributes
                then Inr (JObj [(''id'', JInt (int i)),
                                (''preferences'', JArr (map (\<lambda>t. JInt (int t)) pref_list)),
                                (''attributes'', attributes ! i)])
                else Inl IndexError)
       (enumerate 0 preferences)"

definition AGENT_DATA :: "json list" where
  "AGENT_DATA = (case set_agent_data PREFERENCES AGENT_ATTRIBUTES of Inr l \<Rightarrow> l | Inl e \<Rightarrow> [])"

section \<open>Well-formed inputs\<close>

text \<open>The attribute an agent has at a key, with the default of \<^verbatim>\<open>get\<close>; and the input
  the compiler is meant for: at least \<open>n\<close> agents, each a dictionary.\<close>

definition attr_of :: "json \<Rightarrow> string \<Rightarrow> json \<Rightarrow> json" where
  "attr_of agent k dflt =
     (case agent of
        JObj kvs \<Rightarrow> (case map_of kvs k of None \<Rightarrow> dflt | Some v \<Rightarrow> v)
      | _ \<Rightarrow> dflt)"

definition agents_are_dicts :: "json list \<Rightarrow> int \<Rightarrow> bool" where
  "agents_are_dicts agents n \<longleftrightarrow>
     nat n \<le> length agents \<and> (\<forall>a<nat n. case agents ! a of JObj kvs \<Rightarrow> True | _ \<Rightarrow> False)"

text \<open>One state extends another: what was there is a prefix of what is there now, and
  the objective is the same.\<close>

definition grows :: "state \<Rightarrow> state \<Rightarrow> bool" where
  "grows s s' \<longleftrightarrow>
     prefix (vars s) (vars s') \<and> prefix (constraints s) (constraints s') \<and>
     objective s' = objective s \<and> prefix (hard_constraints s) (hard_constraints s') \<and>
     prefix (soft_constraints s) (soft_constraints s')"

section \<open>Concrete inputs\<close>

text \<open>
  A library instance on which the functions can be run: patterns are taken literally
  (for a pattern without metacharacters \<^verbatim>\<open>search\<close> is containment), no string
  converts to a float, and rounding is the identity (exact on the numbers used below).
\<close>

definition example_lib :: pylib where
  "example_lib = \<lparr>re_compile = (\<lambda>p. Some (\<lambda>s. sublist p s)), str_float = (\<lambda>s. None),
     repr = (\<lambda>v. []), rnd = (\<lambda>r. r)\<rparr>"

text \<open>Two agents with a Boolean attribute, one team, and the two decision variables.\<close>

definition x2 :: "nat \<times> nat \<Rightarrow> nat option" where
  "x2 = map_of [((0, 0), 0), ((1, 0), 1)]"

definition model2 :: state where
  "model2 = \<lparr>vars = [AgentTeam 0 0, AgentTeam 1 0], constraints = [], objective = None,
     hard_constraints = [], soft_constraints = []\<rparr>"

definition agents2 :: "json list" where
  "agents2 = [JObj [(''attributes'', JBool True)], JObj [(''attributes'', JBool False)]]"

text \<open>An \<^verbatim>\<open>or\<close> whose first child is a well-formed \<^verbatim>\<open>includes\<close> rule and whose second
  child lacks its \<^verbatim>\<open>rule\<close> field.\<close>

definition or_broken_children :: "json list" where
  "or_broken_children =
     [JObj [(''kind'', JStr ''hard''), (''rule'', JObj [(''op'', JStr ''includes''),
        (''key'', JStr ''attributes''), (''value'', JBool True), (''min'', JInt 1)])],
      JObj [(''kind'', JStr ''hard'')]]"

definition or_broken_body :: json where
  "or_broken_body = JObj [(''op'', JStr ''or''), (''rules'', JArr or_broken_children)]"

definition rule_or_broken :: json where
  "rule_or_broken = JObj [(''kind'', JStr ''logical''), (''rule'', or_broken_body)]"

text \<open>Two agents with a name, and a \<^verbatim>\<open>regex\<close> rule on it.\<close>

definition agents_named :: "json list" where
  "agents_named = [JObj [(''name'', JStr ''ann'')], JObj [(''name'', JStr ''bob'')]]"

definition rule_regex :: "string \<Rightarrow> json" where
  "rule_regex p = JObj [(''op'', JStr ''regex''), (''key'', JStr ''name''), (''pattern'', JStr p)]"

text \<open>An \<^verbatim>\<open>or\<close> with a single soft child, and one with a single child of a kind the
  compiler does not know.\<close>

definition rule_or_soft :: json where
  "rule_or_soft =
     JObj [(''kind'', JStr ''logical''), (''rule'', JObj [(''op'', JStr ''or''),
       (''rules'', JArr [JObj [(''kind'', JStr ''soft''), (''key'', JStr ''attributes''),
                               (''mode'', JStr ''attractive'')]])])]"

definition rule_or_note :: json where
  "rule_or_note =
     JObj [(''kind'', JStr ''logical''), (''rule'', JObj [(''op'', JStr ''or''),
       (''rules'', JArr [JObj [(''kind'', JStr ''note'')]])])]"

text \<open>An \<^verbatim>\<open>includes\<close> rule that asks for exactly one agent with the attribute.\<close>

definition rule_includes_one :: json where
  "rule_includes_one = JObj [(''op'', JStr ''includes''), (''key'', JStr ''attributes''),
     (''value'', JBool True), (''min'', JInt 1), (''max'', JInt 1)]"

section \<open>What conditional compilation adds\<close>



text \<open>A \<^verbatim>\<open>not\<close> over a \<^verbatim>\<open>regex\<close> rule.\<close>

definition rule_not_regex :: json where
  "rule_not_regex =
     JObj [(''op'', JStr ''not''),
           (''rule'', JObj [(''kind'', JStr ''hard''), (''rule'', rule_regex ''nn'')])]"







section \<open>Compilation only ever adds to the model\<close>

declare parse_constraint.simps [simp del] parse_hard_constraint.simps [simp del]
  parse_logical_constraint.simps [simp del]

lemma bnd_Inr_iff: "bnd r f = Inr v \<longleftrightarrow> (\<exists>u. r = Inr u \<and> f u = Inr v)"
  by (cases r) (auto simp: bnd_def)

lemma for_each_rel:
  assumes "for_each xs f s = (e, s')"
    and "\<And>s. R s s"
    and "\<And>s1 s2 s3. R s1 s2 \<Longrightarrow> R s2 s3 \<Longrightarrow> R s1 s3"
    and "\<And>a u e' u'. a \<in> set xs \<Longrightarrow> f a u = (e', u') \<Longrightarrow> R u u'"
  shows "R s s'"
  using assms
proof (induction xs arbitrary: s)
  case Nil
  then show ?case by simp
next
  case (Cons a xs)
  obtain e1 s1 where f: "f a s = (e1, s1)" by (cases "f a s")
  have r1: "R s s1" using Cons.prems(4)[of a s e1 s1] f by simp
  show ?case
  proof (cases e1)
    case None
    with f Cons.prems(1) have "for_each xs f s1 = (e, s')" by simp
    then have "R s1 s'" using Cons.IH[of s1] Cons.prems(2,3,4) by (metis list.set_intros(2))
    with r1 show ?thesis using Cons.prems(3) by blast
  next
    case (Some x)
    with f Cons.prems(1) have "s' = s1" by simp
    with r1 show ?thesis by simp
  qed
qed

lemma grows_refl: "grows s s"
  by (simp add: grows_def)

lemma grows_trans: "grows s1 s2 \<Longrightarrow> grows s2 s3 \<Longrightarrow> grows s1 s3"
  by (auto simp: grows_def)

lemma grows_append_constraint: "grows s (append_constraint c s)"
  by (simp add: grows_def append_constraint_def)

lemma grows_model_Add: "model_Add e c b enf s = (r, s') \<Longrightarrow> grows s s'"
  by (auto simp: grows_def model_Add_def append_constraint_def split: if_splits)

lemma grows_model_AddBoolOr: "grows s (model_AddBoolOr ls s)"
  by (simp add: model_AddBoolOr_def grows_append_constraint)

lemma grows_NewBoolVar: "NewBoolVar nm s = (v, s') \<Longrightarrow> grows s s'"
  by (auto simp: grows_def NewBoolVar_def)

lemma grows_append_hard: "append_hard r d s = (e, s') \<Longrightarrow> grows s s'"
  by (auto simp: grows_def append_hard_def split: if_splits)

lemma grows_append_soft: "append_soft r c s = (e, s') \<Longrightarrow> grows s s'"
  by (auto simp: grows_def append_soft_def split: if_splits sum.splits)

lemma grows_and_then:
  "and_then r f = (e, s') \<Longrightarrow> grows s (snd r) \<Longrightarrow> (\<And>u e' u'. f u = (e', u') \<Longrightarrow> grows u u')
    \<Longrightarrow> grows s s'"
  by (cases r) (auto simp: and_then_def split: option.splits intro: grows_trans)

lemmas grow_defs = grows_def and_then_def append_hard_def model_Add_def append_constraint_def
  model_AddBoolOr_def NewBoolVar_def

lemma grows_includes: "add_includes_constraint rule x ad na t r s = (e, s') \<Longrightarrow> grows s s'"
  by (auto simp: add_includes_constraint_def grow_defs split: sum.splits prod.splits if_splits)

lemma grows_range: "add_range_constraint L rule x ad na t r s = (e, s') \<Longrightarrow> grows s s'"
  by (auto simp: add_range_constraint_def grow_defs split: sum.splits prod.splits if_splits)

lemma grows_equals: "add_equals_constraint L rule x ad na t r s = (e, s') \<Longrightarrow> grows s s'"
  by (auto simp: add_equals_constraint_def grow_defs split: sum.splits prod.splits if_splits)

lemma grows_regex: "add_regex_constraint L rule x ad na t r s = (e, s') \<Longrightarrow> grows s s'"
  by (auto simp: add_regex_constraint_def grow_defs split: sum.splits prod.splits if_splits)

lemma grows_with_indicator:
  "parse_constraint_with_indicator L c x ad na nt r t i s = (e, s') \<Longrightarrow> grows s s'"
  by (auto simp: parse_constraint_with_indicator_def add_includes_constraint_with_indicator_def
      add_range_constraint_with_indicator_def add_equals_constraint_with_indicator_def
      grow_defs split: sum.splits prod.splits if_splits)

lemma grows_hard_team: "hard_team L op rule x ad na r t s = (e, s') \<Longrightarrow> grows s s'"
  by (auto simp: hard_team_def grows_refl split: if_splits
      dest: grows_includes grows_range grows_equals grows_regex)

lemma grows_or_child:
  assumes "or_child L x ad na nt r t sub (is, s) = (e, (is', s'))"
  shows "grows s s'"
proof -
  obtain i s1 where n: "NewBoolVar (OrIndicator t (length is)) s = (i, s1)"
    by (cases "NewBoolVar (OrIndicator t (length is)) s")
  with assms have p: "parse_constraint_with_indicator L sub x ad na nt r t i s1 = (e, s')"
    by (auto simp: or_child_def split: prod.splits)
  show ?thesis
    by (rule grows_trans[OF grows_NewBoolVar[OF n] grows_with_indicator[OF p]])
qed

lemma grows_or_children:
  "for_each subs (or_child L x ad na nt r t) (is, s) = (e, (is', s')) \<Longrightarrow> grows s s'"
proof (induction subs arbitrary: "is" s)
  case Nil
  then show ?case by (simp add: grows_refl)
next
  case (Cons a subs)
  obtain e1 is1 s1 where c: "or_child L x ad na nt r t a (is, s) = (e1, (is1, s1))"
    by (cases "or_child L x ad na nt r t a (is, s)") auto
  note g1 = grows_or_child[OF c]
  show ?case
  proof (cases e1)
    case None
    with c Cons.prems have "for_each subs (or_child L x ad na nt r t) (is1, s1) = (e, (is', s'))"
      by simp
    from grows_trans[OF g1 Cons.IH[OF this]] show ?thesis .
  next
    case (Some a)
    with c Cons.prems g1 show ?thesis by simp
  qed
qed

lemma grows_or_team:
  assumes a: "or_team L rule x ad na nt r t s = (e, s')"
  shows "grows s s'"
proof (cases "bnd (subscript rule ''rules'') py_iter")
  case (Inl e')
  with a show ?thesis by (simp add: or_team_def grows_refl)
next
  case (Inr subs)
  obtain e1 is1 s1 where fe:
    "for_each subs (or_child L x ad na nt r t) ([], s) = (e1, (is1, s1))"
    by (cases "for_each subs (or_child L x ad na nt r t) ([], s)") auto
  note g = grows_or_children[OF fe]
  show ?thesis
  proof (cases e1)
    case None
    with a Inr fe have "append_hard r (DOr t) (model_AddBoolOr is1 s1) = (e, s')"
      by (simp add: or_team_def)
    from grows_trans[OF g grows_trans[OF grows_model_AddBoolOr grows_append_hard[OF this]]]
    show ?thesis .
  next
    case (Some b)
    with a Inr fe g show ?thesis by (simp add: or_team_def)
  qed
qed

lemma grows_not_team:
  assumes "not_team L rule x ad na nt r t s = (e, s')"
  shows "grows s s'"
proof -
  obtain i s1 where n: "NewBoolVar (NotIndicator t) s = (i, s1)"
    by (cases "NewBoolVar (NotIndicator t) s")
  note g1 = grows_NewBoolVar[OF n]
  show ?thesis
  proof (cases "subscript rule ''rule''")
    case (Inl e')
    with assms n g1 show ?thesis by (simp add: not_team_def)
  next
    case (Inr inner)
    obtain e2 s2 where p: "parse_constraint_with_indicator L inner x ad na nt r t i s1 = (e2, s2)"
      by (cases "parse_constraint_with_indicator L inner x ad na nt r t i s1")
    note g2 = grows_trans[OF g1 grows_with_indicator[OF p]]
    show ?thesis
    proof (cases e2)
      case None
      with assms n Inr p have
        "and_then (model_Add [(NInt 1, i)] EQ (JInt 0) None s2) (append_hard r (DNot t)) = (e, s')"
        by (simp add: not_team_def and_then_def)
      then have "grows s2 s'"
        by (auto simp: grow_defs split: if_splits)
      from grows_trans[OF g2 this] show ?thesis .
    next
      case (Some a)
      with assms n Inr p g2 show ?thesis by (simp add: not_team_def and_then_def)
    qed
  qed
qed

lemma grows_for_each:
  "for_each xs f s = (e, s') \<Longrightarrow> (\<And>a u e' u'. a \<in> set xs \<Longrightarrow> f a u = (e', u') \<Longrightarrow> grows u u')
    \<Longrightarrow> grows s s'"
  by (rule for_each_rel[where R = grows]) (blast intro: grows_refl grows_trans)+

lemma grows_parse:
  "parse_constraint L c x p ad na nt r ti s = (e, s') \<Longrightarrow> grows s s'"
  "parse_hard_constraint L rule x ad na nt r ti s = (e, s') \<Longrightarrow> grows s s'"
  "parse_logical_constraint L rule x ad na nt r ti s = (e, s') \<Longrightarrow> grows s s'"
proof (induction L c x p ad na nt r ti s and L rule x ad na nt r ti s and L rule x ad na nt r ti s
    arbitrary: e s' and e s' and e s'
    rule: parse_constraint_parse_hard_constraint_parse_logical_constraint.induct)
  case (1 L constraint x preferences agent_data num_agents num_teams result team_idx st)
  from "1.prems" show ?case
    by (subst (asm) parse_constraint.simps)
       (auto split: sum.splits if_splits intro: grows_refl "1.IH" dest: grows_append_soft)
next
  case (2 L rule x agent_data num_agents num_teams result team_idx st)
  from "2.prems" show ?case
    by (subst (asm) parse_hard_constraint.simps)
       (auto split: sum.splits if_splits intro: grows_refl "2.IH"
          elim!: grows_for_each dest: grows_hard_team)
next
  case (3 L rule x agent_data num_agents num_teams result team_idx st)
  from "3.prems" show ?case
    by (subst (asm) parse_logical_constraint.simps)
       (auto split: sum.splits if_splits intro: grows_refl "3.IH"
          elim!: grows_for_each dest: grows_or_team grows_not_team)
qed


section \<open>Lists, lookups and the fixture\<close>

lemma fixture_loads: "set_agent_data PREFERENCES AGENT_ATTRIBUTES = Inr AGENT_DATA"
  unfolding AGENT_DATA_def by code_simp

lemma fixture_matching:
  "includes_matching (JStr ''attributes'') (JBool True) (AAgents AGENT_DATA) (AInt 15)
     = Inr [1, 2, 3]"
  by code_simp

lemma select_member:
  "select p xs = Inr S \<Longrightarrow> a \<in> set S \<longleftrightarrow> a \<in> set xs \<and> p a = Inr True"
proof (induction xs arbitrary: S)
  case Nil
  then show ?case by auto
next
  case (Cons b xs)
  from Cons.prems obtain c bs where pb: "p b = Inr c" and sel: "select p xs = Inr bs"
    and S: "S = (if c then b # bs else bs)"
    by (auto split: sum.splits)
  from Cons.IH[OF sel] pb S show ?case by auto
qed

lemma select_filter:
  "(\<And>a. a \<in> set xs \<Longrightarrow> p a = Inr (q a)) \<Longrightarrow> select p xs = Inr (filter q xs)"
  by (induction xs) auto

lemma collect_map:
  "(\<And>a. a \<in> set xs \<Longrightarrow> f a = Inr (g a)) \<Longrightarrow> collect f xs = Inr (map g xs)"
  by (induction xs) auto

lemma bnd_simps [simp]: "bnd (Inr v) f = f v" "bnd (Inl e) f = Inl e"
  by (simp_all add: bnd_def)

lemma select_defined:
  "select p xs = Inr S \<Longrightarrow> a \<in> set xs \<Longrightarrow> \<exists>b. p a = Inr b"
  by (induction xs arbitrary: S) (auto split: sum.splits)

lemma includes_matching_member:
  assumes "includes_matching key val (AAgents agents) (AInt n) = Inr S"
    and "a < nat n" and "dict_get_json (agents ! a) key JNull = Inr w" and "py_eq w val"
  shows "a \<in> set S"
proof -
  let ?p = "\<lambda>a. bnd (agent_at (AAgents agents) a) (\<lambda>ag.
                    bnd (dict_get_json ag key JNull) (\<lambda>v. Inr (py_eq v val)))"
  from assms(1) have sel: "select ?p [0..<nat n] = Inr S"
    by (simp add: includes_matching_def py_range_def bnd_def)
  from assms(2) have mem: "a \<in> set [0..<nat n]" by simp
  from select_defined[OF sel mem] obtain b where b: "?p a = Inr b" by blast
  then have "a < length agents"
    by (auto simp: bnd_def agent_at_def split: if_splits)
  with b assms(3,4) have "?p a = Inr True"
    by (simp add: bnd_def agent_at_def)
  with select_member[OF sel] mem show ?thesis by blast
qed

lemma agent_step:
  assumes "agents_are_dicts agents n" and "a < nat n"
  shows "bnd (agent_at (AAgents agents) a) (\<lambda>ag. bnd (dict_get_json ag (JStr k) d) f)
           = f (attr_of (agents ! a) k d)"
proof -
  from assms have len: "a < length agents" and "case agents ! a of JObj kvs \<Rightarrow> True | _ \<Rightarrow> False"
    by (auto simp: agents_are_dicts_def)
  then obtain kvs where kvs: "agents ! a = JObj kvs" by (cases "agents ! a") auto
  show ?thesis
    using len kvs by (simp add: bnd_def agent_at_def dict_get_json_def attr_of_def)
qed

lemma includes_matching_ok:
  assumes "agents_are_dicts agents n"
  shows "includes_matching (JStr k) v (AAgents agents) (AInt n)
           = Inr (filter (\<lambda>a. py_eq (attr_of (agents ! a) k JNull) v) [0..<nat n])"
  unfolding includes_matching_def py_range_def
  by simp (rule select_filter, simp add: agent_step[OF assms])

lemma regex_matching_ok:
  assumes "agents_are_dicts agents n"
  shows "regex_matching L search (JStr k) (AAgents agents) (AInt n)
           = Inr (filter (\<lambda>a. search (py_str L (attr_of (agents ! a) k (JStr [])))) [0..<nat n])"
  unfolding regex_matching_def py_range_def
  by simp (rule select_filter, simp add: agent_step[OF assms])

lemma collect_x:
  assumes "\<And>a. a \<in> set S \<Longrightarrow> x (a, t) \<noteq> None"
  shows "collect (\<lambda>a. x_at x a t) S = Inr (map (\<lambda>a. the (x (a, t))) S)"
    and "collect (\<lambda>a. bnd (x_at x a t) (\<lambda>v. Inr (c, v))) S
           = Inr (map (\<lambda>a. (c, the (x (a, t)))) S)"
  by (rule collect_map, use assms in \<open>fastforce simp: x_at_def\<close>)+

lemma for_each_all_ok:
  assumes "\<And>a s. a \<in> set xs \<Longrightarrow> f a s = (None, g a s)"
  shows "for_each xs f s = (None, fold g xs s)"
  using assms by (induction xs arbitrary: s) auto

lemma fold_constraints:
  assumes "\<And>a s. a \<in> set xs \<Longrightarrow> constraints (g a s) = constraints s @ cs a"
  shows "constraints (fold g xs s) = constraints s @ concat (map cs xs)"
  using assms by (induction xs arbitrary: s) auto

lemma lin_val_count:
  "lin_val \<sigma> (map (\<lambda>a. (NInt 1, f a)) S) = of_nat (length (filter (\<lambda>a. \<sigma> (f a)) S))"
  by (induction S) (simp_all add: lin_val_def num_val_def)

lemma accepted_append:
  "constraints st' = constraints st @ cs \<Longrightarrow> accepted \<sigma> st' \<Longrightarrow> c \<in> set cs \<Longrightarrow> holds \<sigma> c"
  by (simp add: accepted_def)

lemma bound_holds_count:
  "bound_holds \<sigma> (map (\<lambda>a. (NInt 1, f a)) S) c b \<longleftrightarrow>
     (\<exists>r. num_of b = Some r \<and>
          cmp_holds c (of_nat (length (filter (\<lambda>a. \<sigma> (f a)) S))) (num_val r))"
  by (simp add: bound_holds_def lin_val_count split: option.splits)








section \<open>Membership for \<^verbatim>\<open>includes\<close>\<close>

text \<open>
  Claim C10. The comprehension of \<^verbatim>\<open>includes\<close> tests \<^verbatim>\<open>agent_data[a].get(key) == value\<close>,
  and under Python's equality \<^verbatim>\<open>True\<close> equals 1 and \<^verbatim>\<open>False\<close> equals 0: an agent whose
  attribute is the integer 1 is counted by a rule with value \<^verbatim>\<open>true\<close>, an agent whose
  attribute is \<^verbatim>\<open>True\<close> by a rule with value 1, and likewise for 0 and \<^verbatim>\<open>false\<close>. On the
  fixture (integer attributes, rule value \<^verbatim>\<open>true\<close>) the matching agents are 1, 2 and 3.
\<close>

theorem includes_membership_is_python_equality:
  assumes "includes_matching key val (AAgents agents) (AInt n) = Inr S"
    and "a < nat n"
    and "dict_get_json (agents ! a) key JNull = Inr w"
    and "(w, val) \<in> {(JInt 1, JBool True), (JBool True, JInt 1),
                      (JInt 0, JBool False), (JBool False, JInt 0)}"
  shows "a \<in> set S \<and>
         bnd (set_agent_data PREFERENCES AGENT_ATTRIBUTES) (\<lambda>agent_data.
           includes_matching (JStr ''attributes'') (JBool True) (AAgents agent_data)
             (AInt (int NUM_AGENTS))) = Inr [1, 2, 3]"
proof
  from assms(4) have "py_eq w val" by (auto simp: num_of_def num_val_def)
  with assms(1,2,3) show "a \<in> set S" by (rule includes_matching_member)
next
  show "bnd (set_agent_data PREFERENCES AGENT_ATTRIBUTES) (\<lambda>agent_data.
           includes_matching (JStr ''attributes'') (JBool True) (AAgents agent_data)
             (AInt (int NUM_AGENTS))) = Inr [1, 2, 3]"
    by (simp add: fixture_loads bnd_def fixture_matching NUM_AGENTS_def)
qed

lemma fixture_attribute_1:
  "dict_get_json (AGENT_DATA ! 1) (JStr ''attributes'') JNull = Inr (JInt 1)"
  by code_simp

theorem includes_membership_is_python_equality_witness:
  "(1::nat) \<in> set [1, 2, 3] \<and>
   bnd (set_agent_data PREFERENCES AGENT_ATTRIBUTES) (\<lambda>agent_data.
     includes_matching (JStr ''attributes'') (JBool True) (AAgents agent_data)
       (AInt (int NUM_AGENTS))) = Inr [1, 2, 3]"
  by (rule includes_membership_is_python_equality[OF fixture_matching _ fixture_attribute_1])
     simp_all

section \<open>The \<^verbatim>\<open>regex\<close> operator\<close>

lemma regex_step:
  assumes "subscript rule ''key'' = Inr (JStr k)"
    and "subscript rule ''pattern'' = Inr (JStr p)"
    and "re_compile L p = Some search"
    and "agents_are_dicts agents n"
    and "S = filter (\<lambda>a. search (py_str L (attr_of (agents ! a) k (JStr [])))) [0..<nat n]"
    and "\<forall>a\<in>set S. x (a, t) \<noteq> None"
  shows "add_regex_constraint L rule x (AAgents agents) (AInt n) t AResult st =
           (if S = [] then (Some (ValueError (NoAgentsMatch (JStr p) (JStr k))), st)
            else (None, st\<lparr>constraints := constraints st @ [BoolOr (map (\<lambda>a. the (x (a, t))) S)],
                           hard_constraints := hard_constraints st @ [DRegex t (JStr p) (JStr k)]\<rparr>))"
proof -
  have c: "collect (\<lambda>a. x_at x a t) S = Inr (map (\<lambda>a. the (x (a, t))) S)"
    by (rule collect_x(1)) (use assms(6) in blast)
  show ?thesis
    unfolding add_regex_constraint_def
    by (simp add: assms(1,2,3) compile_pattern_def regex_matching_ok[OF assms(4)]
        assms(5)[symmetric] c append_hard_def model_AddBoolOr_def append_constraint_def)
qed

text \<open>
  Claim C7. A hard \<^verbatim>\<open>regex\<close> rule compiled for a team \<open>t\<close>, with \<open>S\<close> the agents whose
  stringified attribute at the key (the empty string when absent) is found by
  \<^verbatim>\<open>search\<close>: when \<open>S\<close> is empty, compilation raises the \<^verbatim>\<open>ValueError\<close> that names the
  pattern and the key and leaves model and result as they were; otherwise it adds the
  Boolean OR over \<open>x[a,t]\<close> for \<open>a\<close> in \<open>S\<close>, which holds exactly when some member of
  \<open>S\<close> is assigned to team \<open>t\<close>.
\<close>

theorem regex_constraint:
  assumes "subscript rule ''key'' = Inr (JStr k)"
    and "subscript rule ''pattern'' = Inr (JStr p)"
    and "re_compile L p = Some search"
    and "agents_are_dicts agents n"
    and "S = filter (\<lambda>a. search (py_str L (attr_of (agents ! a) k (JStr [])))) [0..<nat n]"
    and "\<forall>a\<in>set S. x (a, t) \<noteq> None"
  shows "(S = [] \<longrightarrow>
            add_regex_constraint L rule x (AAgents agents) (AInt n) t AResult st =
              (Some (ValueError (NoAgentsMatch (JStr p) (JStr k))), st)) \<and>
         (S \<noteq> [] \<longrightarrow>
            add_regex_constraint L rule x (AAgents agents) (AInt n) t AResult st =
              (None, st\<lparr>constraints := constraints st @ [BoolOr (map (\<lambda>a. the (x (a, t))) S)],
                        hard_constraints :=
                          hard_constraints st @ [DRegex t (JStr p) (JStr k)]\<rparr>)) \<and>
         (\<forall>\<sigma>. holds \<sigma> (BoolOr (map (\<lambda>a. the (x (a, t))) S)) =
                (\<exists>a\<in>set S. \<sigma> (the (x (a, t)))))"
  using regex_step[OF assms, of st] by auto

theorem regex_constraint_witness:
  "add_regex_constraint example_lib (rule_regex ''nn'') x2 (AAgents agents_named) (AInt 2) 0
      AResult model2 =
     (None, model2\<lparr>constraints := constraints model2 @ [BoolOr (map (\<lambda>a. the (x2 (a, 0))) [0])],
                   hard_constraints :=
                     hard_constraints model2 @ [DRegex 0 (JStr ''nn'') (JStr ''name'')]\<rparr>) \<and>
   add_regex_constraint example_lib (rule_regex ''zz'') x2 (AAgents agents_named) (AInt 2) 0
      AResult model2 =
     (Some (ValueError (NoAgentsMatch (JStr ''zz'') (JStr ''name''))), model2)"
proof -
  have k: "subscript (rule_regex q) ''key'' = Inr (JStr ''name'')"
    and p: "subscript (rule_regex q) ''pattern'' = Inr (JStr q)" for q
    by (simp_all add: rule_regex_def subscript_def)
  have c: "re_compile example_lib q = Some (\<lambda>s. sublist q s)" for q
    by (simp add: example_lib_def)
  have d: "agents_are_dicts agents_named 2"
    by (simp add: agents_are_dicts_def agents_named_def less_Suc_eq numeral_2_eq_2)
  have s1: "[0] = filter (\<lambda>a. sublist ''nn'' (py_str example_lib
                     (attr_of (agents_named ! a) ''name'' (JStr [])))) [0..<nat 2]"
    by code_simp
  have s2: "[] = filter (\<lambda>a. sublist ''zz'' (py_str example_lib
                     (attr_of (agents_named ! a) ''name'' (JStr [])))) [0..<nat 2]"
    by code_simp
  have x1: "\<forall>a\<in>set [0::nat]. x2 (a, 0) \<noteq> None" by (simp add: x2_def)
  have x0: "\<forall>a\<in>set ([]::nat list). x2 (a, 0) \<noteq> None" by simp
  from regex_constraint[OF k p c d s1 x1, of model2] regex_constraint[OF k p c d s2 x0, of model2]
  show ?thesis by simp
qed

section \<open>Soft rules under a logical combinator\<close>

lemma or_soft_run:
  "parse_constraints example_lib rule_or_soft model2 x2 [] agents2 2 1 =
     (None, \<lparr>vars = [AgentTeam 0 0, AgentTeam 1 0, OrIndicator 0 0],
             constraints = [BoolOr [2]], objective = None, hard_constraints = [DOr 0],
             soft_constraints = []\<rparr>)"
  by code_simp

lemma or_note_run:
  "parse_constraints example_lib rule_or_note model2 x2 [] agents2 2 1 =
     (None, \<lparr>vars = [AgentTeam 0 0, AgentTeam 1 0, OrIndicator 0 0],
             constraints = [BoolOr [2]], objective = None, hard_constraints = [DOr 0],
             soft_constraints = []\<rparr>)"
  by code_simp

text \<open>
  Claim C9, as the code has it. A soft rule that is a child of \<^verbatim>\<open>or\<close> or \<^verbatim>\<open>not\<close> is
  accepted without error and its conditional compilation changes nothing: no constraint,
  no variable, no entry in the soft list (hence no objective term), and no audit entry.
  The combinator still creates the child's indicator variable. Nothing is returned or
  recorded that tells the caller of the no-op.
\<close>

theorem soft_child_is_silent_noop:
  assumes "dict_get_json c (JStr ''kind'') JNull = Inr (JStr ''soft'')"
  shows "parse_constraint_with_indicator L c x agent_data num_agents num_teams result t i st
           = (None, st) \<and>
         or_child L x agent_data num_agents num_teams result t c (indicators, st)
           = (None, indicators @ [length (vars st)],
              st\<lparr>vars := vars st @ [OrIndicator t (length indicators)]\<rparr>)"
  using assms by (simp add: parse_constraint_with_indicator_def or_child_def NewBoolVar_def)

theorem soft_child_is_silent_noop_witness:
  "parse_constraint_with_indicator example_lib
     (JObj [(''kind'', JStr ''soft''), (''key'', JStr ''attributes''),
            (''mode'', JStr ''attractive'')])
     x2 (AAgents agents2) (AInt 2) (AInt 1) AResult 0 2 model2 = (None, model2) \<and>
   or_child example_lib x2 (AAgents agents2) (AInt 2) (AInt 1) AResult 0
     (JObj [(''kind'', JStr ''soft''), (''key'', JStr ''attributes''),
            (''mode'', JStr ''attractive'')])
     ([], model2) =
     (None, [] @ [length (vars model2)],
      model2\<lparr>vars := vars model2 @ [OrIndicator 0 (length ([]::nat list))]\<rparr>)"
  by (rule soft_child_is_silent_noop) (simp add: dict_get_json_def)

text \<open>
  Claim C9 as stated (the no-op is surfaced to the caller) fails: compiling an \<^verbatim>\<open>or\<close>
  over one soft rule returns normally with an empty soft list and the one audit entry of
  the \<^verbatim>\<open>or\<close> itself, exactly the outcome of an \<^verbatim>\<open>or\<close> over a child of unknown kind.
\<close>

theorem soft_noop_is_not_surfaced_counterexample:
  "parse_constraints example_lib rule_or_soft model2 x2 [] agents2 2 1 =
     (None, \<lparr>vars = [AgentTeam 0 0, AgentTeam 1 0, OrIndicator 0 0],
             constraints = [BoolOr [2]], objective = None, hard_constraints = [DOr 0],
             soft_constraints = []\<rparr>) \<and>
   parse_constraints example_lib rule_or_soft model2 x2 [] agents2 2 1 =
     parse_constraints example_lib rule_or_note model2 x2 [] agents2 2 1"
  by (simp add: or_soft_run or_note_run)

section \<open>The \<^verbatim>\<open>includes\<close> operator\<close>

lemma int_bound_not_null: "int_bound b \<Longrightarrow> b \<noteq> JNull"
  by (auto simp: int_bound_def)

lemma int_coeffs_ones: "int_coeffs (map (\<lambda>a. (NInt 1, f a)) S)"
  by (simp add: int_coeffs_def list_all_iff int64_def)

lemma comparison_ok_int: "int_bound b \<Longrightarrow> int_coeffs e \<Longrightarrow> comparison_ok e c b"
  by (auto simp: comparison_ok_def int_bound_def num_of_def split: json.splits)

lemma includes_step:
  assumes "rule = JObj kvs"
    and "map_of kvs ''key'' = Some (JStr k)"
    and "map_of kvs ''value'' = Some v"
    and "agents_are_dicts agents n"
    and "S = filter (\<lambda>a. py_eq (attr_of (agents ! a) k JNull) v) [0..<nat n]"
    and "\<forall>a\<in>set S. x (a, t) \<noteq> None"
    and "mn = (case map_of kvs ''min'' of None \<Rightarrow> JInt 0 | Some b \<Rightarrow> b)"
    and "mx = (case map_of kvs ''max'' of None \<Rightarrow> JInt n | Some b \<Rightarrow> b)"
    and "int_bound mn" and "int_bound mx"
  shows "add_includes_constraint rule x (AAgents agents) (AInt n) t AResult st =
           (None, st\<lparr>constraints := constraints st @
                       [Linear (map (\<lambda>a. (NInt 1, the (x (a, t)))) S) GE mn None,
                        Linear (map (\<lambda>a. (NInt 1, the (x (a, t)))) S) LE mx None],
                     hard_constraints := hard_constraints st @
                       [DAtLeast t mn (JStr k) v, DAtMost t mx (JStr k) v]\<rparr>)"
proof -
  have c: "collect (\<lambda>a. bnd (x_at x a t) (\<lambda>v. Inr (NInt 1, v))) S
             = Inr (map (\<lambda>a. (NInt 1, the (x (a, t)))) S)"
    by (rule collect_x(2)) (use assms(6) in blast)
  have e: "includes_expr rule x (AAgents agents) (AInt n) t
             = Inr (JStr k, v, mn, mx, map (\<lambda>a. (NInt 1, the (x (a, t)))) S)"
    unfolding includes_expr_def
    by (simp add: assms(1,2,3) subscript_def dict_get_json_def arg_json_def
        includes_matching_ok[OF assms(4)] assms(5)[symmetric] c assms(7,8))
  show ?thesis
    unfolding add_includes_constraint_def
    by (simp add: e int_bound_not_null[OF assms(9)] int_bound_not_null[OF assms(10)]
        comparison_ok_int[OF assms(9) int_coeffs_ones] comparison_ok_int[OF assms(10) int_coeffs_ones]
        and_then_def append_hard_def model_Add_def append_constraint_def)
qed

text \<open>
  Claim C4. A hard \<^verbatim>\<open>includes\<close> rule with a string key, compiled for the team in scope or
  for every team, on agents that are dictionaries and assignment variables that exist:
  with \<open>S\<close> the agents whose attribute at the key equals the value under Python's
  equality (no coercion), compilation succeeds and adds, for each team \<open>t\<close>, the two
  constraints \<open>min \<le> sum of x[a,t] over S\<close> and \<open>sum of x[a,t] over S \<le> max\<close>, where
  \<open>min\<close> is 0 and \<open>max\<close> the agent count when the rule has none and both bounds are
  integers of 64 bits (the library refuses any other bound). In every accepted
  solution the number of agents of \<open>S\<close> in team \<open>t\<close> lies between the bounds, and equals
  \<open>q\<close> when both bounds are \<open>q\<close>.
\<close>

theorem includes_constraint:
  assumes "rule = JObj kvs"
    and "map_of kvs ''op'' = Some (JStr ''includes'')"
    and "map_of kvs ''key'' = Some (JStr k)"
    and "map_of kvs ''value'' = Some v"
    and "agents_are_dicts agents n"
    and "S = filter (\<lambda>a. py_eq (attr_of (agents ! a) k JNull) v) [0..<nat n]"
    and "teams = (case team_idx of Some t \<Rightarrow> [t] | None \<Rightarrow> [0..<nat m])"
    and "\<forall>t\<in>set teams. \<forall>a\<in>set S. x (a, t) \<noteq> None"
    and "mn = (case map_of kvs ''min'' of None \<Rightarrow> JInt 0 | Some b \<Rightarrow> b)"
    and "mx = (case map_of kvs ''max'' of None \<Rightarrow> JInt n | Some b \<Rightarrow> b)"
    and "int_bound mn" and "int_bound mx"
  shows "\<exists>st'.
           parse_hard_constraint L rule x (AAgents agents) (AInt n) (AInt m) AResult team_idx st
             = (None, st') \<and>
           constraints st' = constraints st @
             concat (map (\<lambda>t. [Linear (map (\<lambda>a. (NInt 1, the (x (a, t)))) S) GE mn None,
                                Linear (map (\<lambda>a. (NInt 1, the (x (a, t)))) S) LE mx None])
                       teams) \<and>
           (\<forall>\<sigma>. accepted \<sigma> st' \<longrightarrow>
              (\<forall>t\<in>set teams. \<exists>lo hi. num_of mn = Some lo \<and> num_of mx = Some hi \<and>
                 num_val lo \<le> of_nat (length (filter (\<lambda>a. \<sigma> (the (x (a, t)))) S)) \<and>
                 of_nat (length (filter (\<lambda>a. \<sigma> (the (x (a, t)))) S)) \<le> num_val hi)) \<and>
           (\<forall>\<sigma> q. accepted \<sigma> st' \<longrightarrow> mn = JInt q \<longrightarrow> mx = JInt q \<longrightarrow>
              (\<forall>t\<in>set teams. int (length (filter (\<lambda>a. \<sigma> (the (x (a, t)))) S)) = q))"
proof -
  let ?cnt = "\<lambda>t. map (\<lambda>a. (NInt 1, the (x (a, t)))) S"
  let ?cs = "\<lambda>t. [Linear (?cnt t) GE mn None, Linear (?cnt t) LE mx None]"
  let ?g = "\<lambda>t st. st\<lparr>constraints := constraints st @ ?cs t,
                      hard_constraints := hard_constraints st @
                        [DAtLeast t mn (JStr k) v, DAtMost t mx (JStr k) v]\<rparr>"
  let ?st' = "fold ?g teams st"
  have step: "hard_team L (JStr ''includes'') rule x (AAgents agents) (AInt n) AResult t s
                = (None, ?g t s)" if "t \<in> set teams" for t s
    unfolding hard_team_def
    using includes_step[OF assms(1,3,4,5,6) _ assms(9,10,11,12), of x t s] assms(8) that
    by simp
  have teams: "teams_of team_idx (AInt m) = Inr teams"
    by (simp add: teams_of_def py_range_def assms(7) split: option.splits)
  have run: "parse_hard_constraint L rule x (AAgents agents) (AInt n) (AInt m) AResult team_idx st
               = (None, ?st')"
  proof -
    have op: "subscript rule ''op'' = Inr (JStr ''includes'')"
      by (simp add: assms(1,2) subscript_def)
    have fe: "for_each teams (hard_team L (JStr ''includes'') rule x (AAgents agents) (AInt n)
                AResult) st = (None, ?st')"
      by (rule for_each_all_ok) (rule step)
    show ?thesis
      by (subst parse_hard_constraint.simps) (simp add: op teams fe)
  qed
  have cons: "constraints ?st' = constraints st @ concat (map ?cs teams)"
    by (rule fold_constraints) simp
  have sem: "\<exists>lo hi. num_of mn = Some lo \<and> num_of mx = Some hi \<and>
                 num_val lo \<le> of_nat (length (filter (\<lambda>a. \<sigma> (the (x (a, t)))) S)) \<and>
                 of_nat (length (filter (\<lambda>a. \<sigma> (the (x (a, t)))) S)) \<le> num_val hi"
    if acc: "accepted \<sigma> ?st'" and t: "t \<in> set teams" for \<sigma> t
  proof -
    from t have "Linear (?cnt t) GE mn None \<in> set (concat (map ?cs teams))"
      and "Linear (?cnt t) LE mx None \<in> set (concat (map ?cs teams))"
      by auto
    from accepted_append[OF cons acc this(1)] accepted_append[OF cons acc this(2)]
    show ?thesis
      by (auto simp: bound_holds_count cmp_holds_def)
  qed
  have exact: "int (length (filter (\<lambda>a. \<sigma> (the (x (a, t)))) S)) = q"
    if acc: "accepted \<sigma> ?st'" and t: "t \<in> set teams" and "mn = JInt q" and "mx = JInt q"
    for \<sigma> t q
  proof -
    from sem[OF acc t] that(3,4)
    have "(of_int q :: rat) \<le> of_nat (length (filter (\<lambda>a. \<sigma> (the (x (a, t)))) S))"
      and "(of_nat (length (filter (\<lambda>a. \<sigma> (the (x (a, t)))) S)) :: rat) \<le> of_int q"
      by (auto simp: num_of_def num_val_def)
    then have "(of_int q :: rat) = of_int (int (length (filter (\<lambda>a. \<sigma> (the (x (a, t)))) S)))"
      by simp
    then show ?thesis by (simp only: of_int_eq_iff)
  qed
  from run cons sem exact show ?thesis by blast
qed

theorem includes_constraint_witness:
  "fst (parse_hard_constraint example_lib rule_includes_one x2 (AAgents agents2) (AInt 2) (AInt 1)
          AResult None model2) = None \<and>
   constraints (snd (parse_hard_constraint example_lib rule_includes_one x2 (AAgents agents2)
                       (AInt 2) (AInt 1) AResult None model2)) =
     [Linear [(NInt 1, 0)] GE (JInt 1) None, Linear [(NInt 1, 0)] LE (JInt 1) None] \<and>
   int (length (filter (\<lambda>a. the (x2 (a, 0)) = 0) [0])) = 1"
proof -
  let ?kvs = "[(''op'', JStr ''includes''), (''key'', JStr ''attributes''),
               (''value'', JBool True), (''min'', JInt 1), (''max'', JInt 1)]"
  have d: "agents_are_dicts agents2 2"
    by (simp add: agents_are_dicts_def agents2_def less_Suc_eq numeral_2_eq_2)
  have S: "[0] = filter (\<lambda>a. py_eq (attr_of (agents2 ! a) ''attributes'' JNull) (JBool True))
                   [0..<nat 2]"
    by code_simp
  have T: "[0] = (case None of Some t \<Rightarrow> [t] | None \<Rightarrow> [0..<nat 1])" by simp
  have X: "\<forall>t\<in>set [0::nat]. \<forall>a\<in>set [0::nat]. x2 (a, t) \<noteq> None" by (simp add: x2_def)
  have int_bound_one: "int_bound (JInt 1)" by (simp add: int_bound_def int64_def)
  from includes_constraint[where kvs = ?kvs and L = example_lib and st = model2
      and mn = "JInt 1" and mx = "JInt 1", OF rule_includes_one_def _ _ _ d S T X]
    int_bound_one
  obtain st' where run: "parse_hard_constraint example_lib rule_includes_one x2 (AAgents agents2)
        (AInt 2) (AInt 1) AResult None model2 = (None, st')"
    and cons: "constraints st' = constraints model2 @
        [Linear [(NInt 1, the (x2 (0, 0)))] GE (JInt 1) None,
         Linear [(NInt 1, the (x2 (0, 0)))] LE (JInt 1) None]"
    and exact: "\<And>\<sigma>. accepted \<sigma> st' \<Longrightarrow> int (length (filter (\<lambda>a. \<sigma> (the (x2 (a, 0)))) [0])) = 1"
    by auto
  from cons have cons': "constraints st' =
      [Linear [(NInt 1, 0)] GE (JInt 1) None, Linear [(NInt 1, 0)] LE (JInt 1) None]"
    by (simp add: model2_def x2_def)
  have "accepted (\<lambda>v. v = 0) st'"
    by (simp add: accepted_def cons' bound_holds_def lin_val_def num_of_def num_val_def
        cmp_holds_def)
  from exact[OF this] run cons' show ?thesis by simp
qed

section \<open>The \<^verbatim>\<open>not\<close> combinator\<close>









lemma not_regex_run:
  "parse_logical_constraint example_lib rule_not_regex x2 (AAgents agents_named) (AInt 2) (AInt 1)
     AResult None model2 =
   (None, \<lparr>vars = [AgentTeam 0 0, AgentTeam 1 0, NotIndicator 0],
           constraints = [Linear [(NInt 1, 2)] EQ (JInt 0) None], objective = None,
           hard_constraints = [DNot 0], soft_constraints = []\<rparr>)"
  by code_simp




section \<open>Errors during compilation\<close>

lemma or_broken_run:
  "parse_constraints example_lib rule_or_broken model2 x2 [] agents2 2 1 =
     (Some KeyError,
      \<lparr>vars = [AgentTeam 0 0, AgentTeam 1 0, OrIndicator 0 0, OrIndicator 0 1],
       constraints = [Linear [(NInt 1, 0)] GE (JInt 1) (Some 2),
                      Linear [(NInt 1, 0)] LE (JInt 2) (Some 2)],
       objective = None, hard_constraints = [], soft_constraints = []\<rparr>)"
  by code_simp

lemma for_each_error:
  "for_each xs f s = (Some e, s') \<Longrightarrow>
     \<exists>ys a zs s1. xs = ys @ a # zs \<and> for_each ys f s = (None, s1) \<and> f a s1 = (Some e, s')"
proof (induction xs arbitrary: s)
  case Nil
  then show ?case by simp
next
  case (Cons b xs)
  obtain e1 s1 where f: "f b s = (e1, s1)" by (cases "f b s")
  show ?case
  proof (cases e1)
    case None
    with f Cons.prems have "for_each xs f s1 = (Some e, s')" by simp
    from Cons.IH[OF this] obtain ys a zs s2
      where "xs = ys @ a # zs" "for_each ys f s1 = (None, s2)" "f a s2 = (Some e, s')"
      by blast
    with f None have "b # xs = (b # ys) @ a # zs \<and> for_each (b # ys) f s = (None, s2) \<and>
        f a s2 = (Some e, s')"
      by simp
    then show ?thesis by blast
  next
    case (Some e')
    with f Cons.prems have "b # xs = [] @ b # xs \<and> for_each [] f s = (None, s) \<and>
        f b s = (Some e, s')"
      by simp
    then show ?thesis by blast
  qed
qed

lemma loop_error:
  assumes "for_each xs f s = (Some e, s')"
    and "\<And>a u e' u'. f a u = (e', u') \<Longrightarrow> grows u u'"
  shows "\<exists>ys a zs s1. xs = ys @ a # zs \<and> for_each ys f s = (None, s1) \<and>
           f a s1 = (Some e, s') \<and> grows s s1 \<and> grows s1 s'"
proof -
  from for_each_error[OF assms(1)] obtain ys a zs s1
    where d: "xs = ys @ a # zs" "for_each ys f s = (None, s1)" "f a s1 = (Some e, s')"
    by blast
  have "grows s s1" by (rule grows_for_each[OF d(2)]) (rule assms(2))
  moreover have "grows s1 s'" by (rule assms(2)[OF d(3)])
  ultimately show ?thesis using d by blast
qed

lemma or_children_error:
  assumes "for_each subs (or_child L x ad na nt r t) ([], s) = (Some e, (inds', s'))"
  shows "\<exists>ys c zs inds s1 inds1.
           subs = ys @ c # zs \<and>
           for_each ys (or_child L x ad na nt r t) ([], s) = (None, (inds, s1)) \<and>
           or_child L x ad na nt r t c (inds, s1) = (Some e, (inds1, s')) \<and>
           grows s s1 \<and> grows s1 s'"
proof -
  from for_each_error[OF assms] obtain ys c zs u
    where d: "subs = ys @ c # zs" "for_each ys (or_child L x ad na nt r t) ([], s) = (None, u)"
      "or_child L x ad na nt r t c u = (Some e, (inds', s'))"
    by blast
  obtain inds s1 where u: "u = (inds, s1)" by (cases u)
  have "grows s s1" by (rule grows_or_children[OF d(2)[unfolded u]])
  moreover have "grows s1 s'" by (rule grows_or_child[OF d(3)[unfolded u]])
  ultimately show ?thesis using d u by blast
qed

text \<open>
  Claim C8, as the code has it. The model is mutated in place and nothing rolls it back.
  When compilation raises, the exception reaches the caller with the model as it stands:
  what the model held before the call is still there, in order, with the objective
  untouched; and at every loop of the compiler (the teams of a broadcast hard rule, the
  children of \<^verbatim>\<open>and\<close>, the teams of \<^verbatim>\<open>or\<close> and of \<^verbatim>\<open>not\<close>, the children of \<^verbatim>\<open>or\<close>
  within one team) the state at the error is the state the elements before the failing
  one had built by completing, extended by what the failing element itself added before
  it raised. Every variable and constraint added before the failing node is kept.
\<close>

theorem error_keeps_completed_work:
  "(\<forall>data model preferences agents n m.
      parse_constraints L data model x preferences agents n m = (Some e, st') \<longrightarrow>
      prefix (vars model) (vars st') \<and> prefix (constraints model) (constraints st') \<and>
      objective st' = objective model) \<and>
   (\<forall>op teams.
      parse_hard_constraint L rule x ad na nt r ti st = (Some e, st') \<longrightarrow>
      subscript rule ''op'' = Inr op \<longrightarrow>
      op \<notin> set [JStr ''and'', JStr ''or'', JStr ''not''] \<longrightarrow>
      teams_of ti nt = Inr teams \<longrightarrow>
      (\<exists>done t rest s1. teams = done @ t # rest \<and>
         for_each done (hard_team L op rule x ad na r) st = (None, s1) \<and>
         hard_team L op rule x ad na r t s1 = (Some e, st') \<and>
         grows st s1 \<and> grows s1 st')) \<and>
   (\<forall>subs.
      parse_logical_constraint L rule x ad na nt r ti st = (Some e, st') \<longrightarrow>
      subscript rule ''op'' = Inr (JStr ''and'') \<longrightarrow>
      bnd (subscript rule ''rules'') py_iter = Inr subs \<longrightarrow>
      (\<exists>done c rest s1. subs = done @ c # rest \<and>
         for_each done (\<lambda>sub. parse_constraint L sub x ad na nt r (team_arg ti) None) st
           = (None, s1) \<and>
         parse_constraint L c x ad na nt r (team_arg ti) None s1 = (Some e, st') \<and>
         grows st s1 \<and> grows s1 st')) \<and>
   (\<forall>teams.
      parse_logical_constraint L rule x ad na nt r ti st = (Some e, st') \<longrightarrow>
      subscript rule ''op'' = Inr (JStr ''or'') \<longrightarrow>
      teams_of ti nt = Inr teams \<longrightarrow>
      (\<exists>done t rest s1. teams = done @ t # rest \<and>
         for_each done (or_team L rule x ad na nt r) st = (None, s1) \<and>
         or_team L rule x ad na nt r t s1 = (Some e, st') \<and>
         grows st s1 \<and> grows s1 st')) \<and>
   (\<forall>teams.
      parse_logical_constraint L rule x ad na nt r ti st = (Some e, st') \<longrightarrow>
      subscript rule ''op'' = Inr (JStr ''not'') \<longrightarrow>
      teams_of ti nt = Inr teams \<longrightarrow>
      (\<exists>done t rest s1. teams = done @ t # rest \<and>
         for_each done (not_team L rule x ad na nt r) st = (None, s1) \<and>
         not_team L rule x ad na nt r t s1 = (Some e, st') \<and>
         grows st s1 \<and> grows s1 st')) \<and>
   (\<forall>t subs.
      or_team L rule x ad na nt AResult t st = (Some e, st') \<longrightarrow>
      bnd (subscript rule ''rules'') py_iter = Inr subs \<longrightarrow>
      (\<exists>done c rest inds s1 inds1. subs = done @ c # rest \<and>
         for_each done (or_child L x ad na nt AResult t) ([], st) = (None, (inds, s1)) \<and>
         or_child L x ad na nt AResult t c (inds, s1) = (Some e, (inds1, st')) \<and>
         grows st s1 \<and> grows s1 st'))"
proof (intro conjI allI impI)
  fix data model preferences agents n m
  assume "parse_constraints L data model x preferences agents n m = (Some e, st')"
  then have g: "grows (model\<lparr>hard_constraints := [], soft_constraints := []\<rparr>) st'"
    unfolding parse_constraints_def by (rule grows_parse(1))
  from g show "prefix (vars model) (vars st')" by (simp add: grows_def)
  from g show "prefix (constraints model) (constraints st')" by (simp add: grows_def)
  from g show "objective st' = objective model" by (simp add: grows_def)
next
  fix op teams
  assume run: "parse_hard_constraint L rule x ad na nt r ti st = (Some e, st')"
    and op: "subscript rule ''op'' = Inr op"
    and nl: "op \<notin> set [JStr ''and'', JStr ''or'', JStr ''not'']"
    and teams: "teams_of ti nt = Inr teams"
  from run op nl teams have "for_each teams (hard_team L op rule x ad na r) st = (Some e, st')"
    by (subst (asm) parse_hard_constraint.simps) simp
  then show "\<exists>done t rest s1. teams = done @ t # rest \<and>
         for_each done (hard_team L op rule x ad na r) st = (None, s1) \<and>
         hard_team L op rule x ad na r t s1 = (Some e, st') \<and>
         grows st s1 \<and> grows s1 st'"
    by (rule loop_error) (rule grows_hard_team)
next
  fix subs
  assume run: "parse_logical_constraint L rule x ad na nt r ti st = (Some e, st')"
    and op: "subscript rule ''op'' = Inr (JStr ''and'')"
    and subs: "bnd (subscript rule ''rules'') py_iter = Inr subs"
  from run op subs have
    "for_each subs (\<lambda>sub. parse_constraint L sub x ad na nt r (team_arg ti) None) st
       = (Some e, st')"
    by (subst (asm) parse_logical_constraint.simps) simp
  then show "\<exists>done c rest s1. subs = done @ c # rest \<and>
         for_each done (\<lambda>sub. parse_constraint L sub x ad na nt r (team_arg ti) None) st
           = (None, s1) \<and>
         parse_constraint L c x ad na nt r (team_arg ti) None s1 = (Some e, st') \<and>
         grows st s1 \<and> grows s1 st'"
    by (rule loop_error) (rule grows_parse(1))
next
  fix teams
  assume run: "parse_logical_constraint L rule x ad na nt r ti st = (Some e, st')"
    and op: "subscript rule ''op'' = Inr (JStr ''or'')"
    and teams: "teams_of ti nt = Inr teams"
  from run op teams have "for_each teams (or_team L rule x ad na nt r) st = (Some e, st')"
    by (subst (asm) parse_logical_constraint.simps) simp
  then show "\<exists>done t rest s1. teams = done @ t # rest \<and>
         for_each done (or_team L rule x ad na nt r) st = (None, s1) \<and>
         or_team L rule x ad na nt r t s1 = (Some e, st') \<and>
         grows st s1 \<and> grows s1 st'"
    by (rule loop_error) (rule grows_or_team)
next
  fix teams
  assume run: "parse_logical_constraint L rule x ad na nt r ti st = (Some e, st')"
    and op: "subscript rule ''op'' = Inr (JStr ''not'')"
    and teams: "teams_of ti nt = Inr teams"
  from run op teams have "for_each teams (not_team L rule x ad na nt r) st = (Some e, st')"
    by (subst (asm) parse_logical_constraint.simps) simp
  then show "\<exists>done t rest s1. teams = done @ t # rest \<and>
         for_each done (not_team L rule x ad na nt r) st = (None, s1) \<and>
         not_team L rule x ad na nt r t s1 = (Some e, st') \<and>
         grows st s1 \<and> grows s1 st'"
    by (rule loop_error) (rule grows_not_team)
next
  fix t subs
  assume run: "or_team L rule x ad na nt AResult t st = (Some e, st')"
    and subs: "bnd (subscript rule ''rules'') py_iter = Inr subs"
  obtain e1 is1 u where fe:
    "for_each subs (or_child L x ad na nt AResult t) ([], st) = (e1, (is1, u))"
    by (cases "for_each subs (or_child L x ad na nt AResult t) ([], st)") auto
  with run subs have "e1 = Some e \<and> u = st'"
    by (auto simp: or_team_def append_hard_def split: option.splits)
  with fe have "for_each subs (or_child L x ad na nt AResult t) ([], st) = (Some e, (is1, st'))"
    by simp
  then show "\<exists>done c rest inds s1 inds1. subs = done @ c # rest \<and>
         for_each done (or_child L x ad na nt AResult t) ([], st) = (None, (inds, s1)) \<and>
         or_child L x ad na nt AResult t c (inds, s1) = (Some e, (inds1, st')) \<and>
         grows st s1 \<and> grows s1 st'"
    by (rule or_children_error)
qed

lemma or_broken_team_run:
  "or_team example_lib or_broken_body x2 (AAgents agents2) (AInt 2) (AInt 1) AResult 0 model2 =
     (Some KeyError,
      \<lparr>vars = [AgentTeam 0 0, AgentTeam 1 0, OrIndicator 0 0, OrIndicator 0 1],
       constraints = [Linear [(NInt 1, 0)] GE (JInt 1) (Some 2),
                      Linear [(NInt 1, 0)] LE (JInt 2) (Some 2)],
       objective = None, hard_constraints = [], soft_constraints = []\<rparr>)"
  by code_simp

theorem error_keeps_completed_work_witness:
  "(prefix (vars model2)
      (vars \<lparr>vars = [AgentTeam 0 0, AgentTeam 1 0, OrIndicator 0 0, OrIndicator 0 1],
        constraints = [Linear [(NInt 1, 0)] GE (JInt 1) (Some 2),
                       Linear [(NInt 1, 0)] LE (JInt 2) (Some 2)],
        objective = None, hard_constraints = [], soft_constraints = []\<rparr>) \<and>
    prefix (constraints model2)
      (constraints \<lparr>vars = [AgentTeam 0 0, AgentTeam 1 0, OrIndicator 0 0, OrIndicator 0 1],
        constraints = [Linear [(NInt 1, 0)] GE (JInt 1) (Some 2),
                       Linear [(NInt 1, 0)] LE (JInt 2) (Some 2)],
        objective = None, hard_constraints = [], soft_constraints = []\<rparr>) \<and>
    objective \<lparr>vars = [AgentTeam 0 0, AgentTeam 1 0, OrIndicator 0 0, OrIndicator 0 1],
        constraints = [Linear [(NInt 1, 0)] GE (JInt 1) (Some 2),
                       Linear [(NInt 1, 0)] LE (JInt 2) (Some 2)],
        objective = None, hard_constraints = [], soft_constraints = []\<rparr> = objective model2) \<and>
   (\<exists>done c rest inds s1 inds1. or_broken_children = done @ c # rest \<and>
      for_each done (or_child example_lib x2 (AAgents agents2) (AInt 2) (AInt 1) AResult 0)
        ([], model2) = (None, (inds, s1)) \<and>
      or_child example_lib x2 (AAgents agents2) (AInt 2) (AInt 1) AResult 0 c (inds, s1) =
        (Some KeyError, (inds1,
          \<lparr>vars = [AgentTeam 0 0, AgentTeam 1 0, OrIndicator 0 0, OrIndicator 0 1],
           constraints = [Linear [(NInt 1, 0)] GE (JInt 1) (Some 2),
                          Linear [(NInt 1, 0)] LE (JInt 2) (Some 2)],
           objective = None, hard_constraints = [], soft_constraints = []\<rparr>)) \<and>
      grows model2 s1 \<and>
      grows s1 \<lparr>vars = [AgentTeam 0 0, AgentTeam 1 0, OrIndicator 0 0, OrIndicator 0 1],
           constraints = [Linear [(NInt 1, 0)] GE (JInt 1) (Some 2),
                          Linear [(NInt 1, 0)] LE (JInt 2) (Some 2)],
           objective = None, hard_constraints = [], soft_constraints = []\<rparr>)"
proof -
  have subs: "bnd (subscript or_broken_body ''rules'') py_iter = Inr or_broken_children"
    by (simp add: or_broken_body_def subscript_def py_iter_def)
  note E = error_keeps_completed_work[where L = example_lib and x = x2 and rule = or_broken_body
      and ad = "AAgents agents2" and na = "AInt 2" and nt = "AInt 1" and st = model2
      and e = KeyError]
  note W1 = E[THEN conjunct1, rule_format, OF or_broken_run]
  note W2 = E[THEN conjunct2, THEN conjunct2, THEN conjunct2, THEN conjunct2, THEN conjunct2,
      rule_format, OF or_broken_team_run subs]
  show ?thesis by (rule conjI[OF W1 W2])
qed

text \<open>
  Claim C8 as stated fails: compiling \<open>rule_or_broken\<close> raises \<^verbatim>\<open>KeyError\<close> at the
  second child, and the model keeps the two indicator variables and the two conditional
  constraints of the first child.
\<close>

theorem error_leaves_model_changed_counterexample:
  "fst (parse_constraints example_lib rule_or_broken model2 x2 [] agents2 2 1) = Some KeyError \<and>
   constraints (snd (parse_constraints example_lib rule_or_broken model2 x2 [] agents2 2 1))
     \<noteq> constraints model2 \<and>
   vars (snd (parse_constraints example_lib rule_or_broken model2 x2 [] agents2 2 1))
     \<noteq> vars model2"
  unfolding or_broken_run by (simp add: model2_def)

section \<open>The \<^verbatim>\<open>or\<close> combinator\<close>

















section \<open>The structural constraints\<close>




















end
